theory Spec2Isabelle
  imports Complex_Main "HOL-Library.Log_Nat"
begin

section \<open>JavaScript values read and written by the material code\<close>

text \<open>
  The material code of \<^verbatim>\<open>CharacterModel3D.tsx\<close> and of the weapon component reads the
  fields of an untyped material (\<^verbatim>\<open>mat: any\<close>) and tests them for truthiness and for
  \<^verbatim>\<open>!= null\<close>. A field can therefore hold any JavaScript value. \<open>JColor\<close> is a
  \<^verbatim>\<open>THREE.Color\<close> with its hex value, and \<open>JColorStyle\<close> a \<^verbatim>\<open>THREE.Color\<close> that was
  set from a CSS style string (its value is what the library's parser makes of the
  string); colours are the only values here that have a \<^verbatim>\<open>clone\<close> method. \<open>JObj\<close> is
  any other object, named by its address (textures and functions are such objects).
  Numbers in material fields are modelled as reals together with \<open>JNaN\<close>; the material
  code only copies and tests them, it never computes with them.
\<close>

datatype jsval =
    JUndefined
  | JNull
  | JBool bool
  | JNum real
  | JNaN
  | JStr string
  | JColor nat
  | JColorStyle string
  | JObj nat

datatype js_error = TypeError

text \<open>JavaScript truthiness (\<^verbatim>\<open>x && ...\<close>, \<^verbatim>\<open>x || ...\<close>, \<^verbatim>\<open>if (x)\<close>).\<close>

fun truthy :: "jsval \<Rightarrow> bool" where
  "truthy JUndefined = False"
| "truthy JNull = False"
| "truthy (JBool b) = b"
| "truthy (JNum x) = (x \<noteq> 0)"
| "truthy JNaN = False"
| "truthy (JStr s) = (s \<noteq> [])"
| "truthy (JColor c) = True"
| "truthy (JColorStyle s) = True"
| "truthy (JObj a) = True"

text \<open>\<^verbatim>\<open>x != null\<close>: false exactly for \<^verbatim>\<open>null\<close> and \<^verbatim>\<open>undefined\<close>.\<close>

fun not_nullish :: "jsval \<Rightarrow> bool" where
  "not_nullish JUndefined = False"
| "not_nullish JNull = False"
| "not_nullish v = True"

text \<open>\<^verbatim>\<open>a || b\<close> and \<^verbatim>\<open>a ?? b\<close> on values.\<close>

definition js_or :: "jsval \<Rightarrow> jsval \<Rightarrow> jsval" where
  "js_or a b = (if truthy a then a else b)"

definition js_nullish_or :: "jsval \<Rightarrow> jsval \<Rightarrow> jsval" where
  "js_nullish_or a b = (if not_nullish a then a else b)"

text \<open>
  \<^verbatim>\<open>v.clone()\<close>: a colour returns a new colour with the same value; on a value without
  a \<^verbatim>\<open>clone\<close> method the call throws a \<^verbatim>\<open>TypeError\<close>.
\<close>

fun js_clone :: "jsval \<Rightarrow> js_error + jsval" where
  "js_clone (JColor c) = Inr (JColor c)"
| "js_clone (JColorStyle s) = Inr (JColorStyle s)"
| "js_clone v = Inl TypeError"

section \<open>Materials and the material store\<close>

text \<open>
  A material object, restricted to the fields the code reads or passes to
  \<^verbatim>\<open>new THREE.MeshStandardMaterial({...})\<close>. The field \<open>map_tex\<close> is the source's
  \<^verbatim>\<open>map\<close>.
\<close>

record jsmaterial =
  color :: jsval
  map_tex :: jsval
  normalMap :: jsval
  roughness :: jsval
  metalness :: jsval
  side :: jsval
  transparent :: jsval
  opacity :: jsval

definition FrontSide :: jsval where
  "FrontSide = JNum 0"

definition DoubleSide :: jsval where
  "DoubleSide = JNum 2"

text \<open>
  A \<^verbatim>\<open>MeshStandardMaterial\<close> built with no parameters: the defaults of the three.js
  constructor. \<^verbatim>\<open>new THREE.MeshStandardMaterial({k: v, ...})\<close> is this record with
  the listed fields updated (the code never passes \<^verbatim>\<open>undefined\<close> for a key).
\<close>

definition MeshStandardMaterial :: jsmaterial where
  "MeshStandardMaterial =
     \<lparr>color = JColor 0xffffff, map_tex = JNull, normalMap = JNull,
      roughness = JNum 1, metalness = JNum 0, side = FrontSide,
      transparent = JBool False, opacity = JNum 1\<rparr>"

text \<open>
  The constructor stores a colour parameter with \<^verbatim>\<open>Color.set\<close> on the material's own
  (white) colour: a colour is copied, a number is taken as a hex value (\<^verbatim>\<open>setHex\<close>: the
  low 24 bits of its floor), a string is parsed as a style (\<^verbatim>\<open>setStyle\<close>), and any other
  value leaves the colour white.
\<close>

fun Color_set :: "jsval \<Rightarrow> jsval" where
  "Color_set (JColor c) = JColor c"
| "Color_set (JColorStyle s) = JColorStyle s"
| "Color_set (JNum x) = JColor (nat (\<lfloor>x\<rfloor> mod 2 ^ 24))"
| "Color_set JNaN = JColor 0"
| "Color_set (JStr s) = JColorStyle s"
| "Color_set v = JColor 0xffffff"

text \<open>
  Material objects live in a store: \<open>cells\<close> gives the object at an address and
  \<open>next_addr\<close> is the first address not yet allocated. \<^verbatim>\<open>new\<close> allocates a material.
  \<open>next_node\<close> is the counter from which every new scene-graph node takes its id.
\<close>

record heap =
  cells :: "nat \<Rightarrow> jsmaterial"
  next_addr :: nat
  next_node :: nat

definition alloc :: "jsmaterial \<Rightarrow> heap \<Rightarrow> nat \<times> heap" where
  "alloc m h =
     (next_addr h, h\<lparr>cells := (cells h)(next_addr h := m), next_addr := Suc (next_addr h)\<rparr>)"

section \<open>replaceMat\<close>

text \<open>
  The argument of \<open>replaceMat\<close> is \<open>None\<close> for a falsy value (\<^verbatim>\<open>undefined\<close>,
  \<^verbatim>\<open>null\<close>: an absent array element) and \<open>Some m\<close> for a material object. (A truthy
  value that is not an object has none of the fields: it behaves as an object whose
  fields are all \<^verbatim>\<open>undefined\<close>.)
  \<open>replaceMat_try\<close> is the body of the \<^verbatim>\<open>try\<close> block: only
  \<^verbatim>\<open>mat.color.clone()\<close> can throw.
\<close>

definition replaceMat_try :: "jsmaterial option \<Rightarrow> js_error + jsmaterial" where
  "replaceMat_try mat =
     (case (case mat of
              None \<Rightarrow> Inr (JColor 0x888888)
            | Some m \<Rightarrow> if truthy (color m) then js_clone (color m) else Inr (JColor 0x888888)) of
        Inl e \<Rightarrow> Inl e
      | Inr c \<Rightarrow>
          Inr (MeshStandardMaterial
            \<lparr>color := c,
             map_tex := (case mat of None \<Rightarrow> JNull | Some m \<Rightarrow> js_or (map_tex m) JNull),
             normalMap := (case mat of None \<Rightarrow> JNull | Some m \<Rightarrow> js_or (normalMap m) JNull),
             roughness :=
               (case mat of None \<Rightarrow> JNum 0.5
                | Some m \<Rightarrow> if not_nullish (roughness m) then roughness m else JNum 0.5),
             metalness :=
               (case mat of None \<Rightarrow> JNum 0.3
                | Some m \<Rightarrow> if not_nullish (metalness m) then metalness m else JNum 0.3),
             side := DoubleSide,
             transparent :=
               (case mat of None \<Rightarrow> JBool False | Some m \<Rightarrow> js_or (transparent m) (JBool False)),
             opacity :=
               (case mat of None \<Rightarrow> JNum 1
                | Some m \<Rightarrow> if not_nullish (opacity m) then opacity m else JNum 1)\<rparr>))"

text \<open>The material of the \<^verbatim>\<open>catch\<close> block of \<open>replaceMat\<close>.\<close>

definition replaceMat_catch :: jsmaterial where
  "replaceMat_catch =
     MeshStandardMaterial
       \<lparr>color := JColor 0x888888, roughness := JNum 0.5, metalness := JNum 0.3,
        side := DoubleSide\<rparr>"

definition replaceMat :: "jsmaterial option \<Rightarrow> jsmaterial" where
  "replaceMat mat = (case replaceMat_try mat of Inr safeMat \<Rightarrow> safeMat | Inl e \<Rightarrow> replaceMat_catch)"

section \<open>The scene graph\<close>

text \<open>
  The material slot of a node (\<^verbatim>\<open>child.material\<close>): falsy (no material), one material
  object, or an array whose elements are material objects or \<^verbatim>\<open>null\<close>/\<^verbatim>\<open>undefined\<close>
  (\<open>None\<close>). Materials are held by address, so that two slots can hold the same object.
\<close>

datatype 'a mslot = NoMaterial | Single 'a | Multi "'a option list"

text \<open>
  The fields of a node other than its children, and the graph itself. \<open>uuid\<close> is the
  identity of the node object (two nodes are the same object exactly when they have the
  same \<open>uuid\<close>), \<open>geometry\<close> is the address of the node's geometry (if any), \<open>transform\<close>
  its position, rotation and scale.
\<close>

record props =
  isMesh :: bool
  uuid :: nat
  name :: string
  geometry :: "nat option"
  transform :: "real list"
  material :: "nat mslot"

datatype object3d = Object3D (props_of: props) (children: "object3d list")

text \<open>
  \<^verbatim>\<open>obj.traverse(callback)\<close>: the callback runs on the node, then on each child's
  subtree in order. The callbacks of this repository only assign \<^verbatim>\<open>child.material\<close>
  and allocate materials, so a callback maps a node's fields and the store to new ones.
\<close>

fun traverse :: "(props \<Rightarrow> heap \<Rightarrow> props \<times> heap) \<Rightarrow> object3d \<Rightarrow> heap \<Rightarrow> object3d \<times> heap"
  and traverse_children ::
    "(props \<Rightarrow> heap \<Rightarrow> props \<times> heap) \<Rightarrow> object3d list \<Rightarrow> heap \<Rightarrow> object3d list \<times> heap"
where
  "traverse callback (Object3D p cs) h =
     (case callback p h of
        (p', h1) \<Rightarrow>
          (case traverse_children callback cs h1 of
             (cs', h2) \<Rightarrow> (Object3D p' cs', h2)))"
| "traverse_children callback [] h = ([], h)"
| "traverse_children callback (c # cs) h =
     (case traverse callback c h of
        (c', h1) \<Rightarrow>
          (case traverse_children callback cs h1 of
             (cs', h2) \<Rightarrow> (c' # cs', h2)))"

section \<open>sanitizeMaterials (the safe material replacement variants)\<close>

text \<open>\<^verbatim>\<open>child.material.map(replaceMat)\<close>: one new material per element, in order.\<close>

fun map_replaceMat :: "nat option list \<Rightarrow> heap \<Rightarrow> nat option list \<times> heap" where
  "map_replaceMat [] h = ([], h)"
| "map_replaceMat (e # es) h =
     (case alloc (replaceMat (map_option (cells h) e)) h of
        (a, h1) \<Rightarrow>
          (case map_replaceMat es h1 of
             (as, h2) \<Rightarrow> (Some a # as, h2)))"

text \<open>
  The material assigned when the node has no material, and again in the outer
  \<^verbatim>\<open>catch\<close>: \<^verbatim>\<open>new THREE.MeshStandardMaterial({color: 0x888888, side: THREE.DoubleSide})\<close>.
\<close>

definition default_material :: jsmaterial where
  "default_material = MeshStandardMaterial \<lparr>color := JColor 0x888888, side := DoubleSide\<rparr>"

text \<open>The body of the outer \<^verbatim>\<open>try\<close> block: the new value of \<^verbatim>\<open>child.material\<close>.\<close>

definition sanitize_try :: "nat mslot \<Rightarrow> heap \<Rightarrow> js_error + (nat mslot \<times> heap)" where
  "sanitize_try mat h =
     (case mat of
        Multi es \<Rightarrow> (case map_replaceMat es h of (as, h') \<Rightarrow> Inr (Multi as, h'))
      | Single a \<Rightarrow> (case alloc (replaceMat (Some (cells h a))) h of (a', h') \<Rightarrow> Inr (Single a', h'))
      | NoMaterial \<Rightarrow> (case alloc default_material h of (a', h') \<Rightarrow> Inr (Single a', h')))"

definition sanitize_callback :: "props \<Rightarrow> heap \<Rightarrow> props \<times> heap" where
  "sanitize_callback child h =
     (if \<not> isMesh child then (child, h)
      else
        (case sanitize_try (material child) h of
           Inr (m, h') \<Rightarrow> (child\<lparr>material := m\<rparr>, h')
         | Inl e \<Rightarrow>
             (case alloc default_material h of
                (a, h') \<Rightarrow> (child\<lparr>material := Single a\<rparr>, h'))))"

definition sanitizeMaterials :: "object3d \<Rightarrow> heap \<Rightarrow> object3d \<times> heap" where
  "sanitizeMaterials obj h = traverse sanitize_callback obj h"

section \<open>The inline traversal of the auto-centering variants\<close>

text \<open>
  \<^verbatim>\<open>oldMat.color\<close>, \<^verbatim>\<open>oldMat.normalMap\<close>, \<^verbatim>\<open>oldMat.roughness\<close> and
  \<^verbatim>\<open>oldMat.metalness\<close>, where \<^verbatim>\<open>oldMat = child.material\<close> is truthy: the field of the
  material object, or \<^verbatim>\<open>undefined\<close> when the slot holds an array (an array has no
  property of these names).
\<close>

definition oldMat_field :: "(jsmaterial \<Rightarrow> jsval) \<Rightarrow> nat mslot \<Rightarrow> heap \<Rightarrow> jsval" where
  "oldMat_field f oldMat h =
     (case oldMat of Single a \<Rightarrow> f (cells h a) | Multi es \<Rightarrow> JUndefined | NoMaterial \<Rightarrow> JUndefined)"

text \<open>
  \<^verbatim>\<open>oldMat.map\<close>: the field of the material object; on an array it is the method
  \<^verbatim>\<open>Array.prototype.map\<close>, a function object (truthy, and not a texture).
\<close>

definition Array_prototype_map :: jsval where
  "Array_prototype_map = JObj 1"

definition oldMat_map :: "nat mslot \<Rightarrow> heap \<Rightarrow> jsval" where
  "oldMat_map oldMat h =
     (case oldMat of
        Single a \<Rightarrow> map_tex (cells h a)
      | Multi es \<Rightarrow> Array_prototype_map
      | NoMaterial \<Rightarrow> JUndefined)"

text \<open>
  The callback of \<^verbatim>\<open>c.traverse(...)\<close> in \<^verbatim>\<open>GLBCharacter\<close> and \<^verbatim>\<open>GLBWeapon\<close> of
  the auto-centering variants:
  \<^verbatim>\<open>if (child.isMesh && child.material) { child.material = new THREE.MeshStandardMaterial({...}) }\<close>.
\<close>

definition inline_callback :: "props \<Rightarrow> heap \<Rightarrow> props \<times> heap" where
  "inline_callback child h =
     (if isMesh child \<and> material child \<noteq> NoMaterial then
        (case alloc
           (MeshStandardMaterial
              \<lparr>color := Color_set (js_or (oldMat_field color (material child) h) (JColor 0x888888)),
               map_tex := js_or (oldMat_map (material child) h) JNull,
               normalMap := js_or (oldMat_field normalMap (material child) h) JNull,
               roughness := js_nullish_or (oldMat_field roughness (material child) h) (JNum 0.5),
               metalness := js_nullish_or (oldMat_field metalness (material child) h) (JNum 0.3),
               side := DoubleSide\<rparr>) h of
           (a, h') \<Rightarrow> (child\<lparr>material := Single a\<rparr>, h'))
      else (child, h))"

definition inline_traverse :: "object3d \<Rightarrow> heap \<Rightarrow> object3d \<times> heap" where
  "inline_traverse c h = traverse inline_callback c h"

section \<open>Views of a scene used to state properties\<close>

text \<open>The nodes of a graph in traversal order (a node before its children).\<close>

fun nodes :: "object3d \<Rightarrow> props list" where
  "nodes (Object3D p cs) = p # concat (map nodes cs)"

text \<open>The surfaces of a graph are its mesh nodes; these are their material slots.\<close>

definition surface_slots :: "object3d \<Rightarrow> nat mslot list" where
  "surface_slots obj = map material (filter isMesh (nodes obj))"

text \<open>The addresses of the material objects held by the surfaces, and by all nodes.\<close>

definition surface_materials :: "object3d \<Rightarrow> nat set" where
  "surface_materials obj = \<Union> (set_mslot ` set (surface_slots obj))"

definition scene_materials :: "object3d \<Rightarrow> nat set" where
  "scene_materials obj = \<Union> (set_mslot ` set (map material (nodes obj)))"

text \<open>Every material a graph refers to has been allocated.\<close>

definition wf_scene :: "object3d \<Rightarrow> heap \<Rightarrow> bool" where
  "wf_scene obj h = (\<forall>a \<in> scene_materials obj. a < next_addr h)"

text \<open>A slot with each address replaced by the material object stored there.\<close>

definition deref :: "heap \<Rightarrow> nat mslot \<Rightarrow> jsmaterial mslot" where
  "deref h s = map_mslot (cells h) s"

definition surface_descriptors :: "heap \<Rightarrow> object3d \<Rightarrow> jsmaterial mslot list" where
  "surface_descriptors h obj = map (deref h) (surface_slots obj)"

text \<open>
  What \<open>sanitize_callback\<close> leaves in the slot of one surface, as material objects: the
  default material for an empty slot, \<open>replaceMat\<close> of the material, or \<open>replaceMat\<close> of
  every array element.
\<close>

definition sanitized_slot :: "jsmaterial mslot \<Rightarrow> jsmaterial mslot" where
  "sanitized_slot s =
     (case s of
        NoMaterial \<Rightarrow> Single default_material
      | Single m \<Rightarrow> Single (replaceMat (Some m))
      | Multi ms \<Rightarrow> Multi (map (\<lambda>e. Some (replaceMat e)) ms))"

text \<open>A graph with the material slot of every mesh node emptied: everything else it holds.\<close>

fun strip_surface_materials :: "object3d \<Rightarrow> object3d" where
  "strip_surface_materials (Object3D p cs) =
     Object3D (if isMesh p then p\<lparr>material := NoMaterial\<rparr> else p)
       (map strip_surface_materials cs)"

text \<open>The store \<open>h'\<close> extends \<open>h\<close>: nothing allocated in \<open>h\<close> was changed or freed.\<close>

definition heap_le :: "heap \<Rightarrow> heap \<Rightarrow> bool" where
  "heap_le h h' = (next_addr h \<le> next_addr h' \<and> (\<forall>a < next_addr h. cells h' a = cells h a))"

text \<open>A field of a material is a number in the range \<open>[0, 1]\<close>.\<close>

fun in_unit_range :: "jsval \<Rightarrow> bool" where
  "in_unit_range (JNum x) = (0 \<le> x \<and> x \<le> 1)"
| "in_unit_range v = False"

definition ranges_ok :: "jsmaterial \<Rightarrow> bool" where
  "ranges_ok m = (in_unit_range (roughness m) \<and> in_unit_range (metalness m) \<and> in_unit_range (opacity m))"

section \<open>Cloning and sanitizing one display instance\<close>

text \<open>
  \<^verbatim>\<open>SkeletonUtils.clone(gltf.scene)\<close> and \<^verbatim>\<open>gltf.scene.clone(true)\<close> are functions of the
  three.js library; the components take the cloner as it is. Here it is a parameter: it
  returns the cloned graph and the store, or throws.
\<close>

type_synonym cloner = "object3d \<Rightarrow> heap \<Rightarrow> js_error + (object3d \<times> heap)"

text \<open>The identities of the nodes of a graph; all of them have been handed out.\<close>

definition node_ids :: "object3d \<Rightarrow> nat set" where
  "node_ids obj = set (map uuid (nodes obj))"

definition wf_nodes :: "object3d \<Rightarrow> heap \<Rightarrow> bool" where
  "wf_nodes obj h = (\<forall>i \<in> node_ids obj. i < next_node h)"

text \<open>
  The contract of a cloner: every node of its result is a new object (its id is taken
  from the counter), it frees and overwrites no material, and every material its result
  refers to is allocated. Nothing is required of the materials it puts into the copy:
  they may be the source's own objects.
\<close>

definition cloner_ok :: "cloner \<Rightarrow> bool" where
  "cloner_ok clone =
     (\<forall>scene h c h1. wf_scene scene h \<longrightarrow> clone scene h = Inr (c, h1) \<longrightarrow>
        heap_le h h1 \<and> wf_scene c h1 \<and> next_node h \<le> next_node h1
        \<and> node_ids c \<subseteq> {next_node h ..< next_node h1})"

text \<open>
  The cloner of the library, \<^verbatim>\<open>Object3D.clone(true)\<close> (which \<^verbatim>\<open>SkeletonUtils.clone\<close>
  uses for the nodes as well): every node of the copy is a new object with the next id;
  its name, geometry, transform and material slot are assigned from the source node
  (\<^verbatim>\<open>this.material = source.material\<close>), so the copy refers to the material objects of
  the source.
\<close>

fun copy_node :: "object3d \<Rightarrow> nat \<Rightarrow> object3d \<times> nat"
  and copy_children :: "object3d list \<Rightarrow> nat \<Rightarrow> object3d list \<times> nat"
where
  "copy_node (Object3D p cs) n =
     (case copy_children cs (Suc n) of
        (cs', n') \<Rightarrow> (Object3D (p\<lparr>uuid := n\<rparr>) cs', n'))"
| "copy_children [] n = ([], n)"
| "copy_children (c # cs) n =
     (case copy_node c n of
        (c', n1) \<Rightarrow>
          (case copy_children cs n1 of
             (cs', n2) \<Rightarrow> (c' # cs', n2)))"

definition Object3D_clone :: cloner where
  "Object3D_clone scene h =
     (case copy_node scene (next_node h) of (c, n) \<Rightarrow> Inr (c, h\<lparr>next_node := n\<rparr>))"

text \<open>
  The \<^verbatim>\<open>useMemo\<close> body of \<^verbatim>\<open>GLBCharacter\<close> (and of \<^verbatim>\<open>GLBWeapon\<close>) in the safe
  variants: clone, sanitize, return the clone; \<^verbatim>\<open>null\<close> (\<open>None\<close>) when an exception is
  caught.
\<close>

definition GLBCharacter_cloned :: "cloner \<Rightarrow> object3d \<Rightarrow> heap \<Rightarrow> object3d option \<times> heap" where
  "GLBCharacter_cloned clone scene h =
     (case clone scene h of
        Inl e \<Rightarrow> (None, h)
      | Inr (c, h1) \<Rightarrow> (case sanitizeMaterials c h1 of (c', h2) \<Rightarrow> (Some c', h2)))"

text \<open>
  The \<^verbatim>\<open>useMemo\<close> body of \<^verbatim>\<open>GLBCharacter\<close> and \<^verbatim>\<open>GLBWeapon\<close> in the auto-centering
  variants: \<^verbatim>\<open>scene.clone()\<close>, then the inline traversal. There is no \<^verbatim>\<open>try\<close>: when
  the cloner throws, so does the body (\<open>None\<close>).
\<close>

definition GLBCharacter_cloned_autoCentering ::
    "cloner \<Rightarrow> object3d \<Rightarrow> heap \<Rightarrow> object3d option \<times> heap" where
  "GLBCharacter_cloned_autoCentering clone scene h =
     (case clone scene h of
        Inl e \<Rightarrow> (None, h)
      | Inr (c, h1) \<Rightarrow> (case inline_traverse c h1 of (c', h2) \<Rightarrow> (Some c', h2)))"

text \<open>Mutating the material object at address \<open>a\<close>: it becomes \<open>m\<close>.\<close>

definition write_material :: "nat \<Rightarrow> jsmaterial \<Rightarrow> heap \<Rightarrow> heap" where
  "write_material a m h = h\<lparr>cells := (cells h)(a := m)\<rparr>"

section \<open>Identifier tables and the \<^verbatim>\<open>in\<close> operator\<close>

definition CHARACTER_GLB_MAP :: "(string \<times> string) list" where
  "CHARACTER_GLB_MAP =
     [(''ghost_riley'', ''/Models/Characters/snake_eyes__fortnite_item_shop_skin.glb''),
      (''nova_prime'', ''/Models/Characters/fortnite_oblivion_skin.glb''),
      (''viper_snake'', ''/Models/Characters/torin__fortnite_chapter_2_season_8_bp_skin.glb''),
      (''shadow_exe'', ''/Models/Characters/the_omega_tier_100_skin_fortnite_3d_model.glb''),
      (''midas_gold'', ''/Models/Characters/midas__fortnite_100_tier_s12_bp_skin.glb''),
      (''marigold'', ''/Models/Characters/marigold_fortnite_skin__female_midas.glb''),
      (''glow_phantom'', ''/Models/Characters/glow__fortnite_outfit.glb'')]"

definition WEAPON_GLB_MAP :: "(string \<times> string) list" where
  "WEAPON_GLB_MAP =
     [(''k416'', ''/Models/weapons/rifle__m4a1-s_weapon_model_cs2.glb''),
      (''ak_death'', ''/Models/weapons/ak-47disassembly_of_weapons.glb''),
      (''awm_x'', ''/Models/weapons/rifle__awp_weapon_model_cs2.glb''),
      (''vector_neon'', ''/Models/weapons/animated_pp-19-01.glb''),
      (''s12_breacher'', ''/Models/weapons/shotgun_mr-133_animated.glb''),
      (''desert_eagle'', ''/Models/weapons/pistol__desert_eagle_weapon_model_cs2.glb''),
      (''glock_17'', ''/Models/weapons/glock_17_-_fps_weapon_animations_pack_v.1.glb''),
      (''m4a4_thunder'', ''/Models/weapons/rifle__m4a4_weapon_model_cs2.glb''),
      (''sniper_elite'', ''/Models/weapons/sniper.glb''),
      (''usp_shadow'', ''/Models/weapons/pistol__usp-s_weapon_model_cs2.glb''),
      (''awp_black'', ''/Models/weapons/rifle__awp_black_version_weapon_model_cs2.glb''),
      (''cz100'', ''/Models/weapons/cz100__realtime_weapon.glb''),
      (''cheytac'', ''/Models/weapons/cheytac_m300_mcmillan_stock.glb''),
      (''t77'', ''/Models/weapons/t77_handgun.glb''),
      (''colt_m1911'', ''/Models/weapons/colt_pistol_m1911a1_game_asset.glb'')]"

text \<open>
  Both tables are object literals, so their prototype is \<^verbatim>\<open>Object.prototype\<close>. These are
  its property names (ECMAScript, with the legacy accessors of Annex B).
\<close>

definition Object_prototype_names :: "string list" where
  "Object_prototype_names =
     [''constructor'', ''hasOwnProperty'', ''isPrototypeOf'', ''propertyIsEnumerable'',
      ''toLocaleString'', ''toString'', ''valueOf'', ''__proto__'',
      ''__defineGetter__'', ''__defineSetter__'', ''__lookupGetter__'', ''__lookupSetter__'']"

text \<open>
  \<^verbatim>\<open>key in table\<close> is true for an own property and for an inherited one;
  \<^verbatim>\<open>table[key]\<close> is the path of an own property, the inherited member (an object, not a
  path) for an inherited one, and \<^verbatim>\<open>undefined\<close> otherwise.
\<close>

definition js_in :: "string \<Rightarrow> (string \<times> string) list \<Rightarrow> bool" where
  "js_in key table = (key \<in> set (map fst table) \<or> key \<in> set Object_prototype_names)"

definition inherited_member :: jsval where
  "inherited_member = JObj 0"

definition js_get :: "(string \<times> string) list \<Rightarrow> string \<Rightarrow> jsval" where
  "js_get table key =
     (case map_of table key of
        Some path \<Rightarrow> JStr path
      | None \<Rightarrow> if key \<in> set Object_prototype_names then inherited_member else JUndefined)"

section \<open>The preview components\<close>

text \<open>
  \<^verbatim>\<open>useGLTF(path)\<close> returns the loaded asset once the load has resolved; while the load
  is outstanding it throws the pending promise (the component suspends), and after a
  failed load it throws the error. \<open>loader\<close> gives the state of the load for each
  argument of \<^verbatim>\<open>useGLTF\<close>.
\<close>

datatype load_status = Pending | Resolved | Rejected

text \<open>What a component shows, and how the rendering of a component ends.\<close>

datatype view = Fallback | DisplayInstance | Empty

datatype outcome = Returned view | Suspended | Threw

record child_render =
  result :: outcome
  useGLTF_args :: "jsval list"
  onError_called :: bool

text \<open>
  \<^verbatim>\<open>GLBCharacter\<close> of the safe variant. The \<^verbatim>\<open>try\<close> around \<^verbatim>\<open>useGLTF(path)\<close>
  catches whatever it throws, calls \<^verbatim>\<open>onError\<close> and returns \<^verbatim>\<open>null\<close>;
  \<open>cloned_ok\<close> says that the \<^verbatim>\<open>useMemo\<close> body returned a graph and not \<^verbatim>\<open>null\<close>.
\<close>

definition GLBCharacter :: "(jsval \<Rightarrow> load_status) \<Rightarrow> bool \<Rightarrow> string \<Rightarrow> child_render" where
  "GLBCharacter loader cloned_ok characterId =
     (let path = js_get CHARACTER_GLB_MAP characterId in
      case loader path of
        Resolved \<Rightarrow>
          \<lparr>result = Returned (if cloned_ok then DisplayInstance else Empty),
           useGLTF_args = [path], onError_called = False\<rparr>
      | Pending \<Rightarrow> \<lparr>result = Returned Empty, useGLTF_args = [path], onError_called = True\<rparr>
      | Rejected \<Rightarrow> \<lparr>result = Returned Empty, useGLTF_args = [path], onError_called = True\<rparr>)"

text \<open>
  \<^verbatim>\<open>GLBWeapon\<close> of the auto-centering variant: no \<^verbatim>\<open>try\<close>, so a pending load
  suspends and a failed load or a failed clone throws.
\<close>

definition GLBWeapon_autoCentering ::
    "(jsval \<Rightarrow> load_status) \<Rightarrow> bool \<Rightarrow> string \<Rightarrow> child_render" where
  "GLBWeapon_autoCentering loader cloned_ok weaponId =
     (let path = js_get WEAPON_GLB_MAP weaponId in
      case loader path of
        Resolved \<Rightarrow>
          \<lparr>result = (if cloned_ok then Returned DisplayInstance else Threw),
           useGLTF_args = [path], onError_called = False\<rparr>
      | Pending \<Rightarrow> \<lparr>result = Suspended, useGLTF_args = [path], onError_called = False\<rparr>
      | Rejected \<Rightarrow> \<lparr>result = Threw, useGLTF_args = [path], onError_called = False\<rparr>)"

text \<open>\<^verbatim>\<open><Suspense fallback={fallback}>\<close>: shows the fallback while its child is suspended.\<close>

definition Suspense :: "view \<Rightarrow> child_render \<Rightarrow> child_render" where
  "Suspense fallback child =
     (case result child of Suspended \<Rightarrow> child\<lparr>result := Returned fallback\<rparr> | _ \<Rightarrow> child)"

text \<open>
  The state of one preview: \<open>loadError\<close> is the \<^verbatim>\<open>useState\<close> flag of
  \<^verbatim>\<open>CharacterModel3D\<close>, \<open>hasError\<close> the state of its \<^verbatim>\<open>GLBErrorBoundary\<close>.
\<close>

record preview_state =
  loadError :: bool
  hasError :: bool

definition initial_state :: preview_state where
  "initial_state = \<lparr>loadError = False, hasError = False\<rparr>"

text \<open>
  \<^verbatim>\<open>GLBErrorBoundary\<close>: \<^verbatim>\<open>render()\<close> returns the fallback when \<^verbatim>\<open>hasError\<close> is set
  and its children otherwise (they are rendered only then);
  \<^verbatim>\<open>getDerivedStateFromError\<close> sets the flag.
\<close>

definition GLBErrorBoundary_render :: "bool \<Rightarrow> view \<Rightarrow> child_render \<Rightarrow> child_render" where
  "GLBErrorBoundary_render has_error fallback children_render =
     (if has_error then \<lparr>result = Returned fallback, useGLTF_args = [], onError_called = False\<rparr>
      else children_render)"

definition getDerivedStateFromError :: "preview_state \<Rightarrow> preview_state" where
  "getDerivedStateFromError s = s\<lparr>hasError := True\<rparr>"

text \<open>\<^verbatim>\<open>CharacterModel3D\<close> of the safe variant.\<close>

definition CharacterModel3D ::
    "(jsval \<Rightarrow> load_status) \<Rightarrow> bool \<Rightarrow> string \<Rightarrow> preview_state \<Rightarrow> child_render" where
  "CharacterModel3D loader cloned_ok character_id s =
     (let hasGLB = js_in character_id CHARACTER_GLB_MAP in
      if loadError s \<or> \<not> hasGLB then
        \<lparr>result = Returned Fallback, useGLTF_args = [], onError_called = False\<rparr>
      else
        GLBErrorBoundary_render (hasError s) Fallback
          (Suspense Fallback (GLBCharacter loader cloned_ok character_id)))"

text \<open>\<^verbatim>\<open>WeaponModel3D\<close> of the auto-centering variant; it has no \<^verbatim>\<open>loadError\<close> flag.\<close>

definition WeaponModel3D_autoCentering ::
    "(jsval \<Rightarrow> load_status) \<Rightarrow> bool \<Rightarrow> string \<Rightarrow> preview_state \<Rightarrow> child_render" where
  "WeaponModel3D_autoCentering loader cloned_ok weaponId s =
     (let hasGLB = js_in weaponId WEAPON_GLB_MAP in
      if hasGLB then
        GLBErrorBoundary_render (hasError s) Fallback
          (Suspense Fallback (GLBWeapon_autoCentering loader cloned_ok weaponId))
      else \<lparr>result = Returned Fallback, useGLTF_args = [], onError_called = False\<rparr>)"

section \<open>The life of one character preview\<close>

text \<open>
  A preview is the flags of the component together with the state of the load of its
  asset. Three things happen to it: the load settles (once); the component renders, and
  \<^verbatim>\<open>onError\<close> (that is \<^verbatim>\<open>setLoadError(true)\<close>) runs if \<^verbatim>\<open>GLBCharacter\<close> called it;
  an exception escapes the subtree below the boundary while the boundary renders its
  children, and \<^verbatim>\<open>getDerivedStateFromError\<close> runs. Nothing in the component clears a
  flag.
\<close>

record preview =
  flags :: preview_state
  load :: load_status

datatype event = Render | Settle bool | SubtreeThrows

definition children_rendered :: "string \<Rightarrow> preview_state \<Rightarrow> bool" where
  "children_rendered character_id s =
     (\<not> (loadError s \<or> \<not> js_in character_id CHARACTER_GLB_MAP) \<and> \<not> hasError s)"

definition step :: "bool \<Rightarrow> string \<Rightarrow> event \<Rightarrow> preview \<Rightarrow> preview" where
  "step cloned_ok character_id e p =
     (case e of
        Settle ok \<Rightarrow>
          (if load p = Pending then p\<lparr>load := (if ok then Resolved else Rejected)\<rparr> else p)
      | Render \<Rightarrow>
          (if onError_called (CharacterModel3D (\<lambda>path. load p) cloned_ok character_id (flags p))
           then p\<lparr>flags := (flags p)\<lparr>loadError := True\<rparr>\<rparr>
           else p)
      | SubtreeThrows \<Rightarrow>
          (if children_rendered character_id (flags p)
           then p\<lparr>flags := getDerivedStateFromError (flags p)\<rparr>
           else p))"

fun run :: "bool \<Rightarrow> string \<Rightarrow> event list \<Rightarrow> preview \<Rightarrow> preview" where
  "run cloned_ok character_id [] p = p"
| "run cloned_ok character_id (e # es) p =
     run cloned_ok character_id es (step cloned_ok character_id e p)"

text \<open>
  The states of the Failure Containment Wrapper, read off a preview: \<open>FAILED\<close> when a
  flag is set or the id has no asset, \<open>READY\<close> when the asset is loaded, \<open>LOADING\<close>
  otherwise.
\<close>

datatype phase = LOADING | READY | FAILED

definition phase_of :: "string \<Rightarrow> preview \<Rightarrow> phase" where
  "phase_of character_id p =
     (if loadError (flags p) \<or> hasError (flags p) \<or> \<not> js_in character_id CHARACTER_GLB_MAP
      then FAILED
      else if load p = Resolved then READY else LOADING)"

definition shown :: "bool \<Rightarrow> string \<Rightarrow> preview \<Rightarrow> outcome" where
  "shown cloned_ok character_id p =
     result (CharacterModel3D (\<lambda>path. load p) cloned_ok character_id (flags p))"

section \<open>The rotation driver\<close>











section \<open>Further notions used in the statements\<close>

text \<open>
  A field of a source material that \<open>replaceMat\<close> copies is harmless when it is absent
  (\<^verbatim>\<open>null\<close> or \<^verbatim>\<open>undefined\<close>) or a number in \<open>[0, 1]\<close>.
\<close>

definition field_ok :: "jsval \<Rightarrow> bool" where
  "field_ok v = (if not_nullish v then in_unit_range v else True)"

definition source_ranges_ok :: "jsmaterial \<Rightarrow> bool" where
  "source_ranges_ok m = (field_ok (roughness m) \<and> field_ok (metalness m) \<and> field_ok (opacity m))"

text \<open>The colour of a source material does not make \<^verbatim>\<open>mat.color.clone()\<close> throw.\<close>

fun cloneable_color :: "jsval \<Rightarrow> bool" where
  "cloneable_color (JColor k) = True"
| "cloneable_color (JColorStyle s) = True"
| "cloneable_color v = (\<not> truthy v)"

text \<open>
  The roughness, metalness and opacity of a rewritten material \<open>m'\<close> are those of its
  source: the source's value when it is not \<^verbatim>\<open>null\<close> or \<^verbatim>\<open>undefined\<close>, whatever it is,
  and 0.5, 0.3 and 1 otherwise, also when there is no source material or its colour
  makes \<^verbatim>\<open>clone()\<close> throw.
\<close>

definition copied_or_defaulted :: "jsmaterial option \<Rightarrow> jsmaterial \<Rightarrow> bool" where
  "copied_or_defaulted mat m' =
     (case mat of
        None \<Rightarrow> roughness m' = JNum 0.5 \<and> metalness m' = JNum 0.3 \<and> opacity m' = JNum 1
      | Some m \<Rightarrow>
          if cloneable_color (color m) then
            roughness m' = (if not_nullish (roughness m) then roughness m else JNum 0.5)
            \<and> metalness m' = (if not_nullish (metalness m) then metalness m else JNum 0.3)
            \<and> opacity m' = (if not_nullish (opacity m) then opacity m else JNum 1)
          else roughness m' = JNum 0.5 \<and> metalness m' = JNum 0.3 \<and> opacity m' = JNum 1)"



section \<open>A small scene for the examples\<close>

text \<open>
  Three source materials: one with an out-of-range roughness and a non-numeric opacity,
  one whose colour is a string (so that \<^verbatim>\<open>mat.color.clone()\<close> throws) and which carries
  textures, and a well-formed one with textures.
\<close>

definition out_of_range_material :: jsmaterial where
  "out_of_range_material =
     \<lparr>color = JColor 0xff0000, map_tex = JUndefined, normalMap = JUndefined,
      roughness = JNum 5, metalness = JNum 0.2, side = FrontSide,
      transparent = JBool False, opacity = JStr ''opaque''\<rparr>"

definition string_color_material :: jsmaterial where
  "string_color_material =
     \<lparr>color = JStr ''red'', map_tex = JObj 7, normalMap = JObj 8,
      roughness = JNum 0.9, metalness = JNum 0.1, side = FrontSide,
      transparent = JBool True, opacity = JNum 0.5\<rparr>"

definition textured_material :: jsmaterial where
  "textured_material =
     \<lparr>color = JColor 0x00ff00, map_tex = JObj 7, normalMap = JObj 8,
      roughness = JNum 0.25, metalness = JUndefined, side = FrontSide,
      transparent = JBool False, opacity = JNull\<rparr>"

definition example_heap :: heap where
  "example_heap =
     \<lparr>cells = (\<lambda>a. if a = 0 then out_of_range_material
                    else if a = 1 then string_color_material
                    else textured_material),
      next_addr = 3, next_node = 6\<rparr>"

definition mesh :: "string \<Rightarrow> nat mslot \<Rightarrow> object3d list \<Rightarrow> object3d" where
  "mesh n m cs =
     Object3D
       \<lparr>isMesh = True, uuid = 0, name = n, geometry = Some 0, transform = [0, 0, 0],
        material = m\<rparr> cs"

definition non_mesh :: "string \<Rightarrow> nat mslot \<Rightarrow> object3d list \<Rightarrow> object3d" where
  "non_mesh n m cs =
     Object3D
       \<lparr>isMesh = False, uuid = 0, name = n, geometry = None, transform = [0, 1, 0],
        material = m\<rparr> cs"

definition example_scene :: object3d where
  "example_scene =
     non_mesh ''root'' NoMaterial
       [mesh ''body'' (Single 2) [mesh ''visor'' (Single 1) []],
        mesh ''cape'' (Multi [Some 2, None]) [],
        mesh ''bare'' NoMaterial [],
        non_mesh ''outline'' (Single 2) []]"

definition out_of_range_scene :: object3d where
  "out_of_range_scene = mesh ''body'' (Single 0) []"

text \<open>A scene with an out-of-range surface and a well-formed one.\<close>

definition mixed_scene :: object3d where
  "mixed_scene = mesh ''body'' (Single 0) [mesh ''visor'' (Single 2) []]"

text \<open>The example scene as a loaded asset: its six nodes have the ids 0 to 5.\<close>

definition loaded_asset :: object3d where
  "loaded_asset = fst (copy_node example_scene 0)"

section \<open>Properties of the store and of the traversals\<close>

lemma heap_le_refl: "heap_le h h"
  by (simp add: heap_le_def)

lemma heap_le_trans: "heap_le h1 h2 \<Longrightarrow> heap_le h2 h3 \<Longrightarrow> heap_le h1 h3"
  by (auto simp: heap_le_def)

lemma alloc_heap_le: "alloc m h = (a, h') \<Longrightarrow> heap_le h h'"
  by (auto simp: alloc_def heap_le_def)

lemma alloc_result:
  "alloc m h = (a, h') \<Longrightarrow> a = next_addr h \<and> next_addr h' = Suc (next_addr h) \<and> cells h' a = m"
  by (auto simp: alloc_def)

lemma deref_heap_le:
  "heap_le h h' \<Longrightarrow> \<forall>a \<in> set_mslot s. a < next_addr h \<Longrightarrow> deref h' s = deref h s"
  unfolding deref_def heap_le_def by (intro mslot.map_cong) auto

lemma in_Union_set_option: "a \<in> \<Union> (set_option ` set es) \<longleftrightarrow> Some a \<in> set es"
proof -
  have "\<And>e. a \<in> set_option e \<longleftrightarrow> e = Some a"
    subgoal for e by (cases e) auto
    done
  then show ?thesis by auto
qed

lemma map_replaceMat_spec:
  "map_replaceMat es h = (as, h') \<Longrightarrow> \<forall>a \<in> \<Union> (set_option ` set es). a < next_addr h \<Longrightarrow>
     heap_le h h' \<and> length as = length es
     \<and> \<Union> (set_option ` set as) \<subseteq> {next_addr h ..< next_addr h'}
     \<and> map (map_option (cells h')) as = map (\<lambda>e. Some (replaceMat (map_option (cells h) e))) es"
proof (induction es arbitrary: h as h')
  case Nil
  then show ?case by (simp add: heap_le_refl)
next
  case (Cons e es)
  obtain a h1 where A: "alloc (replaceMat (map_option (cells h) e)) h = (a, h1)"
    by (cases "alloc (replaceMat (map_option (cells h) e)) h")
  obtain bs h2 where M: "map_replaceMat es h1 = (bs, h2)"
    by (cases "map_replaceMat es h1")
  from Cons.prems(1) A M have as: "as = Some a # bs" and h': "h' = h2" by auto
  have le1: "heap_le h h1" using A by (rule alloc_heap_le)
  have ar: "a = next_addr h" "next_addr h1 = Suc (next_addr h)"
       "cells h1 a = replaceMat (map_option (cells h) e)"
    using alloc_result[OF A] by auto
  have wf1: "\<forall>a \<in> \<Union> (set_option ` set es). a < next_addr h1"
    using Cons.prems(2) ar by (simp add: in_Union_set_option less_Suc_eq)
  from Cons.IH[OF M wf1] have IH: "heap_le h1 h2" "length bs = length es"
    "\<Union> (set_option ` set bs) \<subseteq> {next_addr h1 ..< next_addr h2}"
    "map (map_option (cells h2)) bs = map (\<lambda>e. Some (replaceMat (map_option (cells h1) e))) es"
    by auto
  have c2: "cells h2 a = cells h1 a" using IH(1) ar by (auto simp: heap_le_def)
  have eq: "map (\<lambda>e. Some (replaceMat (map_option (cells h1) e))) es
          = map (\<lambda>e. Some (replaceMat (map_option (cells h) e))) es"
  proof (rule map_cong[OF refl])
    fix x assume x: "x \<in> set es"
    have "map_option (cells h1) x = map_option (cells h) x"
    proof (cases x)
      case None then show ?thesis by simp
    next
      case (Some b)
      with x Cons.prems(2) have "b < next_addr h" by force
      with le1 Some show ?thesis by (simp add: heap_le_def)
    qed
    then show "Some (replaceMat (map_option (cells h1) x)) = Some (replaceMat (map_option (cells h) x))"
      by simp
  qed
  have le: "heap_le h h2" using le1 IH(1) by (rule heap_le_trans)
  have n12: "next_addr h1 \<le> next_addr h2" using IH(1) by (simp add: heap_le_def)
  show ?case
    unfolding as h' using le IH(2) IH(3) IH(4) c2 ar eq n12 by auto
qed


lemma surface_slots_Object3D:
  "surface_slots (Object3D p cs) = (if isMesh p then [material p] else []) @ concat (map surface_slots cs)"
  by (simp add: surface_slots_def[abs_def] filter_concat map_concat comp_def)

lemma surface_materials_Object3D:
  "surface_materials (Object3D p cs) =
     (if isMesh p then set_mslot (material p) else {}) \<union> (\<Union>c \<in> set cs. surface_materials c)"
  by (auto simp: surface_materials_def surface_slots_Object3D)

lemma scene_materials_Object3D:
  "scene_materials (Object3D p cs) = set_mslot (material p) \<union> (\<Union>c \<in> set cs. scene_materials c)"
  by (auto simp: scene_materials_def)

lemma wf_scene_Object3D:
  "wf_scene (Object3D p cs) h \<longleftrightarrow>
     (\<forall>a \<in> set_mslot (material p). a < next_addr h) \<and> (\<forall>c \<in> set cs. wf_scene c h)"
  by (auto simp: wf_scene_def scene_materials_Object3D)

lemma surface_descriptors_Object3D:
  "surface_descriptors h (Object3D p cs) =
     (if isMesh p then [deref h (material p)] else []) @ concat (map (surface_descriptors h) cs)"
  by (simp add: surface_descriptors_def[abs_def] surface_slots_Object3D map_concat comp_def)

lemma surface_subset_scene: "surface_materials c \<subseteq> scene_materials c"
  by (auto simp: surface_materials_def scene_materials_def surface_slots_def)

lemma wf_scene_heap_le: "wf_scene c h \<Longrightarrow> heap_le h h' \<Longrightarrow> wf_scene c h'"
  by (fastforce simp: wf_scene_def heap_le_def)

lemma surface_descriptors_heap_le:
  assumes "heap_le h h'" and "\<forall>a \<in> surface_materials c. a < next_addr h"
  shows "surface_descriptors h' c = surface_descriptors h c"
  unfolding surface_descriptors_def
proof (rule map_cong[OF refl])
  fix s assume "s \<in> set (surface_slots c)"
  with assms(2) have "\<forall>a \<in> set_mslot s. a < next_addr h"
    by (auto simp: surface_materials_def)
  with assms(1) show "deref h' s = deref h s" by (rule deref_heap_le)
qed

lemma sanitize_callback_spec:
  assumes "sanitize_callback p h = (p', h')"
    and "\<forall>a \<in> set_mslot (material p). a < next_addr h"
  shows "heap_le h h' \<and> p' = p\<lparr>material := material p'\<rparr>
     \<and> (\<not> isMesh p \<longrightarrow> p' = p \<and> h' = h)
     \<and> (isMesh p \<longrightarrow> set_mslot (material p') \<subseteq> {next_addr h ..< next_addr h'}
           \<and> deref h' (material p') = sanitized_slot (deref h (material p)))"
proof (cases "isMesh p")
  case False
  with assms(1) show ?thesis by (simp add: sanitize_callback_def heap_le_refl)
next
  case True
  show ?thesis
  proof (cases "material p")
    case NoMaterial
    with True assms(1) show ?thesis
      by (auto simp: sanitize_callback_def sanitize_try_def alloc_def heap_le_def deref_def
          sanitized_slot_def)
  next
    case (Single a)
    with True assms show ?thesis
      by (auto simp: sanitize_callback_def sanitize_try_def alloc_def heap_le_def deref_def
          sanitized_slot_def)
  next
    case (Multi es)
    obtain as h1 where M: "map_replaceMat es h = (as, h1)" by (cases "map_replaceMat es h")
    from assms(2) Multi have "\<forall>a \<in> \<Union> (set_option ` set es). a < next_addr h" by simp
    from map_replaceMat_spec[OF M this] have S: "heap_le h h1" "length as = length es"
      "\<Union> (set_option ` set as) \<subseteq> {next_addr h ..< next_addr h1}"
      "map (map_option (cells h1)) as = map (\<lambda>e. Some (replaceMat (map_option (cells h) e))) es"
      by auto
    from True Multi M assms(1) have p': "p' = p\<lparr>material := Multi as\<rparr>" and h': "h' = h1"
      by (auto simp: sanitize_callback_def sanitize_try_def)
    show ?thesis
      using True Multi S unfolding p' h'
      by (simp add: deref_def sanitized_slot_def comp_def)
  qed
qed

lemma traverse_sanitize_spec:
  "cb = sanitize_callback \<Longrightarrow> wf_scene c h \<Longrightarrow> traverse cb c h = (c', h') \<Longrightarrow>
     heap_le h h' \<and> surface_materials c' \<subseteq> {next_addr h ..< next_addr h'}
     \<and> surface_descriptors h' c' = map sanitized_slot (surface_descriptors h c)
     \<and> strip_surface_materials c' = strip_surface_materials c"
  and
  "cb = sanitize_callback \<Longrightarrow> (\<forall>c \<in> set cs. wf_scene c h) \<Longrightarrow>
     traverse_children cb cs h = (cs', h') \<Longrightarrow>
     heap_le h h' \<and> (\<Union>c \<in> set cs'. surface_materials c) \<subseteq> {next_addr h ..< next_addr h'}
     \<and> concat (map (surface_descriptors h') cs')
         = map sanitized_slot (concat (map (surface_descriptors h) cs))
     \<and> map strip_surface_materials cs' = map strip_surface_materials cs"
proof (induction cb c h and cb cs h arbitrary: c' h' and cs' h'
    rule: traverse_traverse_children.induct)
  case (1 callback p cs h)
  obtain p' h1 where C: "callback p h = (p', h1)" by (cases "callback p h")
  obtain ds h2 where T: "traverse_children callback cs h1 = (ds, h2)"
    by (cases "traverse_children callback cs h1")
  from "1.prems"(3) C T have c': "c' = Object3D p' ds" and h': "h' = h2" by auto
  from "1.prems"(2) have wfp: "\<forall>a \<in> set_mslot (material p). a < next_addr h"
    and wfcs: "\<forall>c \<in> set cs. wf_scene c h" by (auto simp: wf_scene_Object3D)
  have C': "sanitize_callback p h = (p', h1)" using C "1.prems"(1) by simp
  from sanitize_callback_spec[OF C' wfp] have cb:
    "heap_le h h1" "p' = p\<lparr>material := material p'\<rparr>" "\<not> isMesh p \<Longrightarrow> p' = p \<and> h1 = h"
    "isMesh p \<Longrightarrow> set_mslot (material p') \<subseteq> {next_addr h ..< next_addr h1}"
    "isMesh p \<Longrightarrow> deref h1 (material p') = sanitized_slot (deref h (material p))"
    by auto
  have wfcs1: "\<forall>c \<in> set cs. wf_scene c h1" using wfcs cb(1) by (auto intro: wf_scene_heap_le)
  from "1.IH"[OF C[symmetric] "1.prems"(1) wfcs1 T] have IH:
    "heap_le h1 h2" "(\<Union>c \<in> set ds. surface_materials c) \<subseteq> {next_addr h1 ..< next_addr h2}"
    "concat (map (surface_descriptors h2) ds) = map sanitized_slot (concat (map (surface_descriptors h1) cs))"
    "map strip_surface_materials ds = map strip_surface_materials cs"
    by auto
  have n01: "next_addr h \<le> next_addr h1" and n12: "next_addr h1 \<le> next_addr h2"
    using cb(1) IH(1) by (auto simp: heap_le_def)
  have mesh: "isMesh p' = isMesh p" by (subst cb(2)) simp
  have le: "heap_le h h2" using cb(1) IH(1) by (rule heap_le_trans)
  have fresh: "surface_materials (Object3D p' ds) \<subseteq> {next_addr h ..< next_addr h2}"
    using cb(4) IH(2) n01 n12 mesh by (fastforce simp: surface_materials_Object3D)
  have same: "map (surface_descriptors h1) cs = map (surface_descriptors h) cs"
  proof (rule map_cong[OF refl])
    fix c assume "c \<in> set cs"
    with wfcs have "wf_scene c h" by simp
    then have "\<forall>a \<in> surface_materials c. a < next_addr h"
      using surface_subset_scene[of c] by (auto simp: wf_scene_def)
    with cb(1) show "surface_descriptors h1 c = surface_descriptors h c"
      by (rule surface_descriptors_heap_le)
  qed
  have own: "isMesh p \<Longrightarrow> deref h2 (material p') = sanitized_slot (deref h (material p))"
  proof -
    assume m: "isMesh p"
    from cb(4)[OF m] have "\<forall>a \<in> set_mslot (material p'). a < next_addr h1" by auto
    with IH(1) have "deref h2 (material p') = deref h1 (material p')" by (rule deref_heap_le)
    with cb(5)[OF m] show ?thesis by simp
  qed
  have descr: "surface_descriptors h2 (Object3D p' ds)
      = map sanitized_slot (surface_descriptors h (Object3D p cs))"
    using own IH(3) same mesh by (simp add: surface_descriptors_Object3D)
  have strip: "strip_surface_materials (Object3D p' ds) = strip_surface_materials (Object3D p cs)"
  proof (cases "isMesh p")
    case True
    have "p'\<lparr>material := NoMaterial\<rparr> = p\<lparr>material := NoMaterial\<rparr>"
      by (subst cb(2)) simp
    with True mesh IH(4) show ?thesis by simp
  next
    case False
    with cb(3) IH(4) show ?thesis by simp
  qed
  show ?case unfolding c' h' using le fresh descr strip by simp
next
  case (2 callback h)
  then show ?case by (auto simp: heap_le_refl)
next
  case (3 callback c cs h)
  obtain d h1 where T1: "traverse callback c h = (d, h1)" by (cases "traverse callback c h")
  obtain ds h2 where T2: "traverse_children callback cs h1 = (ds, h2)"
    by (cases "traverse_children callback cs h1")
  from "3.prems"(3) T1 T2 have cs': "cs' = d # ds" and h': "h' = h2" by auto
  from "3.prems"(2) have wfc: "wf_scene c h" and wfcs: "\<forall>c \<in> set cs. wf_scene c h" by auto
  from "3.IH"(1)[OF "3.prems"(1) wfc T1] have I1:
    "heap_le h h1" "surface_materials d \<subseteq> {next_addr h ..< next_addr h1}"
    "surface_descriptors h1 d = map sanitized_slot (surface_descriptors h c)"
    "strip_surface_materials d = strip_surface_materials c"
    by auto
  have wfcs1: "\<forall>c \<in> set cs. wf_scene c h1" using wfcs I1(1) by (auto intro: wf_scene_heap_le)
  from "3.IH"(2)[OF T1[symmetric] "3.prems"(1) wfcs1 T2] have I2:
    "heap_le h1 h2" "(\<Union>c \<in> set ds. surface_materials c) \<subseteq> {next_addr h1 ..< next_addr h2}"
    "concat (map (surface_descriptors h2) ds) = map sanitized_slot (concat (map (surface_descriptors h1) cs))"
    "map strip_surface_materials ds = map strip_surface_materials cs"
    by auto
  have n01: "next_addr h \<le> next_addr h1" and n12: "next_addr h1 \<le> next_addr h2"
    using I1(1) I2(1) by (auto simp: heap_le_def)
  have le: "heap_le h h2" using I1(1) I2(1) by (rule heap_le_trans)
  have fresh: "(\<Union>c \<in> set (d # ds). surface_materials c) \<subseteq> {next_addr h ..< next_addr h2}"
    using I1(2) I2(2) n01 n12 by fastforce
  have same: "map (surface_descriptors h1) cs = map (surface_descriptors h) cs"
  proof (rule map_cong[OF refl])
    fix c assume "c \<in> set cs"
    with wfcs have "wf_scene c h" by simp
    then have "\<forall>a \<in> surface_materials c. a < next_addr h"
      using surface_subset_scene[of c] by (auto simp: wf_scene_def)
    with I1(1) show "surface_descriptors h1 c = surface_descriptors h c"
      by (rule surface_descriptors_heap_le)
  qed
  have d2: "surface_descriptors h2 d = surface_descriptors h1 d"
  proof (rule surface_descriptors_heap_le[OF I2(1)])
    show "\<forall>a \<in> surface_materials d. a < next_addr h1" using I1(2) by auto
  qed
  show ?case unfolding cs' h' using le fresh I1(3,4) I2(3,4) same d2 by simp
qed


lemma sanitizeMaterials_spec:
  assumes "wf_scene c h" and "sanitizeMaterials c h = (c', h')"
  shows "heap_le h h'"
    and "surface_materials c' \<subseteq> {next_addr h ..< next_addr h'}"
    and "surface_descriptors h' c' = map sanitized_slot (surface_descriptors h c)"
  using traverse_sanitize_spec(1)[OF refl assms(1), of c' h'] assms(2)
  by (simp_all add: sanitizeMaterials_def)

lemma map_replaceMat_heap_le: "map_replaceMat es h = (as, h') \<Longrightarrow> heap_le h h'"
proof (induction es arbitrary: h as h')
  case Nil
  then show ?case by (simp add: heap_le_refl)
next
  case (Cons e es)
  obtain a h1 where A: "alloc (replaceMat (map_option (cells h) e)) h = (a, h1)"
    by (cases "alloc (replaceMat (map_option (cells h) e)) h")
  obtain bs h2 where M: "map_replaceMat es h1 = (bs, h2)"
    by (cases "map_replaceMat es h1")
  from Cons.prems A M have h': "h' = h2" by auto
  have "heap_le h h1" using A by (rule alloc_heap_le)
  moreover have "heap_le h1 h2" using M by (rule Cons.IH)
  ultimately show ?case unfolding h' by (rule heap_le_trans)
qed

lemma sanitize_callback_frame:
  assumes "sanitize_callback p h = (p', h')"
  shows "heap_le h h' \<and> p' = p\<lparr>material := material p'\<rparr> \<and> (\<not> isMesh p \<longrightarrow> p' = p)"
proof (cases "isMesh p")
  case False
  with assms show ?thesis by (simp add: sanitize_callback_def heap_le_refl)
next
  case True
  show ?thesis
  proof (cases "material p")
    case NoMaterial
    with True assms show ?thesis
      by (auto simp: sanitize_callback_def sanitize_try_def alloc_def heap_le_def)
  next
    case (Single a)
    with True assms show ?thesis
      by (auto simp: sanitize_callback_def sanitize_try_def alloc_def heap_le_def)
  next
    case (Multi es)
    obtain as h1 where M: "map_replaceMat es h = (as, h1)" by (cases "map_replaceMat es h")
    from True Multi M assms have p': "p' = p\<lparr>material := Multi as\<rparr>" and h': "h' = h1"
      by (auto simp: sanitize_callback_def sanitize_try_def)
    show ?thesis using True map_replaceMat_heap_le[OF M] unfolding p' h' by simp
  qed
qed

lemma traverse_sanitize_frame:
  "cb = sanitize_callback \<Longrightarrow> traverse cb c h = (c', h') \<Longrightarrow>
     heap_le h h' \<and> strip_surface_materials c' = strip_surface_materials c"
  and
  "cb = sanitize_callback \<Longrightarrow> traverse_children cb cs h = (cs', h') \<Longrightarrow>
     heap_le h h' \<and> map strip_surface_materials cs' = map strip_surface_materials cs"
proof (induction cb c h and cb cs h arbitrary: c' h' and cs' h'
    rule: traverse_traverse_children.induct)
  case (1 callback p cs h)
  obtain p' h1 where C: "callback p h = (p', h1)" by (cases "callback p h")
  obtain ds h2 where T: "traverse_children callback cs h1 = (ds, h2)"
    by (cases "traverse_children callback cs h1")
  from "1.prems"(2) C T have c': "c' = Object3D p' ds" and h': "h' = h2" by auto
  have C': "sanitize_callback p h = (p', h1)" using C "1.prems"(1) by simp
  from sanitize_callback_frame[OF C'] have cb:
    "heap_le h h1" "p' = p\<lparr>material := material p'\<rparr>" "\<not> isMesh p \<Longrightarrow> p' = p"
    by auto
  from "1.IH"[OF C[symmetric] "1.prems"(1) T] have IH:
    "heap_le h1 h2" "map strip_surface_materials ds = map strip_surface_materials cs"
    by auto
  have mesh: "isMesh p' = isMesh p" by (subst cb(2)) simp
  have le: "heap_le h h2" using cb(1) IH(1) by (rule heap_le_trans)
  have strip: "strip_surface_materials (Object3D p' ds) = strip_surface_materials (Object3D p cs)"
  proof (cases "isMesh p")
    case True
    have "p'\<lparr>material := NoMaterial\<rparr> = p\<lparr>material := NoMaterial\<rparr>"
      by (subst cb(2)) simp
    with True mesh IH(2) show ?thesis by simp
  next
    case False
    with cb(3) IH(2) show ?thesis by simp
  qed
  show ?case unfolding c' h' using le strip by simp
next
  case (2 callback h)
  then show ?case by (auto simp: heap_le_refl)
next
  case (3 callback c cs h)
  obtain d h1 where T1: "traverse callback c h = (d, h1)" by (cases "traverse callback c h")
  obtain ds h2 where T2: "traverse_children callback cs h1 = (ds, h2)"
    by (cases "traverse_children callback cs h1")
  from "3.prems"(2) T1 T2 have cs': "cs' = d # ds" and h': "h' = h2" by auto
  from "3.IH"(1)[OF "3.prems"(1) T1] have I1:
    "heap_le h h1" "strip_surface_materials d = strip_surface_materials c" by auto
  from "3.IH"(2)[OF T1[symmetric] "3.prems"(1) T2] have I2:
    "heap_le h1 h2" "map strip_surface_materials ds = map strip_surface_materials cs" by auto
  have le: "heap_le h h2" using I1(1) I2(1) by (rule heap_le_trans)
  show ?case unfolding cs' h' using le I1(2) I2(2) by simp
qed

lemma ranges_ok_replaceMat_Some: "source_ranges_ok m \<Longrightarrow> ranges_ok (replaceMat (Some m))"
  by (auto simp: replaceMat_def replaceMat_try_def replaceMat_catch_def MeshStandardMaterial_def
      ranges_ok_def source_ranges_ok_def field_ok_def split: sum.splits if_splits)

lemma ranges_ok_replaceMat_None: "ranges_ok (replaceMat None)"
  by (simp add: replaceMat_def replaceMat_try_def MeshStandardMaterial_def ranges_ok_def)

lemma ranges_ok_default_material: "ranges_ok default_material"
  by (simp add: default_material_def MeshStandardMaterial_def ranges_ok_def)

lemma ranges_ok_sanitized_slot:
  assumes "\<forall>m \<in> set_mslot s. source_ranges_ok m" and "m' \<in> set_mslot (sanitized_slot s)"
  shows "ranges_ok m'"
proof (cases s)
  case NoMaterial
  with assms(2) show ?thesis by (simp add: sanitized_slot_def ranges_ok_default_material)
next
  case (Single m)
  with assms show ?thesis by (simp add: sanitized_slot_def ranges_ok_replaceMat_Some)
next
  case (Multi ms)
  with assms(2) obtain e where e: "e \<in> set ms" and m': "m' = replaceMat e"
    by (auto simp: sanitized_slot_def)
  show ?thesis
  proof (cases e)
    case None
    with m' show ?thesis by (simp add: ranges_ok_replaceMat_None)
  next
    case (Some m)
    with e Multi assms(1) have "source_ranges_ok m" by force
    with Some m' show ?thesis by (simp add: ranges_ok_replaceMat_Some)
  qed
qed

section \<open>The claims\<close>

lemma GLBCharacter_cloned_Inr:
  "clone scene h0 = Inr (c, h) \<Longrightarrow>
     GLBCharacter_cloned clone scene h0
       = (Some (fst (sanitizeMaterials c h)), snd (sanitizeMaterials c h))"
  by (simp add: GLBCharacter_cloned_def split: prod.splits)

lemmas example_defs =
  example_scene_def example_heap_def out_of_range_scene_def mesh_def non_mesh_def
  out_of_range_material_def string_color_material_def textured_material_def

lemmas sanitize_defs =
  sanitizeMaterials_def sanitize_callback_def sanitize_try_def alloc_def
  replaceMat_def replaceMat_try_def replaceMat_catch_def default_material_def
  MeshStandardMaterial_def js_or_def js_nullish_or_def DoubleSide_def FrontSide_def

lemmas view_defs =
  surface_descriptors_def surface_slots_def surface_materials_def scene_materials_def
  wf_scene_def deref_def

lemma wf_example_scene: "wf_scene example_scene example_heap"
  by (simp add: view_defs example_defs)

lemma copied_or_defaulted_replaceMat: "copied_or_defaulted mat (replaceMat mat)"
proof (cases mat)
  case None
  then show ?thesis
    by (simp add: copied_or_defaulted_def replaceMat_def replaceMat_try_def MeshStandardMaterial_def)
next
  case (Some m)
  then show ?thesis
    by (cases "color m")
      (simp_all add: copied_or_defaulted_def replaceMat_def replaceMat_try_def
        replaceMat_catch_def MeshStandardMaterial_def)
qed

lemma ranges_ok_replaceMat:
  "(\<forall>m. mat = Some m \<longrightarrow> source_ranges_ok m) \<Longrightarrow> ranges_ok (replaceMat mat)"
  by (cases mat) (simp_all add: ranges_ok_replaceMat_None ranges_ok_replaceMat_Some)

text \<open>
  C1 (amended). For a cloned graph whose materials are allocated, clone followed by
  sanitize yields a display instance with as many surfaces, and surface by surface: a
  surface without material gets the default material; a material (single, or an element
  of a material array, the array keeping its length) is replaced by one whose roughness,
  metalness and opacity are copied from its own source material when the source's value
  is not \<^verbatim>\<open>null\<close> or \<^verbatim>\<open>undefined\<close>, and are 0.5, 0.3 and 1 otherwise. Nothing is clamped:
  the three fields of a rewritten material lie in \<open>[0, 1]\<close> whenever those of its own
  source material are absent or numbers in \<open>[0, 1]\<close>, whatever the other surfaces carry.
\<close>

theorem C1_ranges_copied_not_clamped:
  assumes "clone scene h0 = Inr (c, h)" and "wf_scene c h"
  shows "\<exists>d h'. GLBCharacter_cloned clone scene h0 = (Some d, h')
    \<and> length (surface_descriptors h' d) = length (surface_descriptors h c)
    \<and> (\<forall>i < length (surface_descriptors h c).
          (surface_descriptors h c ! i = NoMaterial \<longrightarrow>
             surface_descriptors h' d ! i = Single default_material)
          \<and> (\<forall>m. surface_descriptors h c ! i = Single m \<longrightarrow>
                (\<exists>m'. surface_descriptors h' d ! i = Single m'
                   \<and> copied_or_defaulted (Some m) m'
                   \<and> (source_ranges_ok m \<longrightarrow> ranges_ok m')))
          \<and> (\<forall>ms. surface_descriptors h c ! i = Multi ms \<longrightarrow>
                (\<exists>ms'. surface_descriptors h' d ! i = Multi ms' \<and> length ms' = length ms
                   \<and> (\<forall>j < length ms. \<exists>m'. ms' ! j = Some m'
                          \<and> copied_or_defaulted (ms ! j) m'
                          \<and> ((\<forall>m. ms ! j = Some m \<longrightarrow> source_ranges_ok m) \<longrightarrow> ranges_ok m')))))
    \<and> ranges_ok default_material"
proof -
  define d where "d = fst (sanitizeMaterials c h)"
  define h' where "h' = snd (sanitizeMaterials c h)"
  have S: "sanitizeMaterials c h = (d, h')" by (simp add: d_def h'_def)
  have G: "GLBCharacter_cloned clone scene h0 = (Some d, h')"
    using GLBCharacter_cloned_Inr[of clone scene h0 c h, OF assms(1)] by (simp add: d_def h'_def)
  have D: "surface_descriptors h' d = map sanitized_slot (surface_descriptors h c)"
    using sanitizeMaterials_spec(3)[OF assms(2) S] .
  have L: "length (surface_descriptors h' d) = length (surface_descriptors h c)"
    by (simp add: D)
  have P: "\<forall>i < length (surface_descriptors h c).
          (surface_descriptors h c ! i = NoMaterial \<longrightarrow>
             surface_descriptors h' d ! i = Single default_material)
          \<and> (\<forall>m. surface_descriptors h c ! i = Single m \<longrightarrow>
                (\<exists>m'. surface_descriptors h' d ! i = Single m'
                   \<and> copied_or_defaulted (Some m) m'
                   \<and> (source_ranges_ok m \<longrightarrow> ranges_ok m')))
          \<and> (\<forall>ms. surface_descriptors h c ! i = Multi ms \<longrightarrow>
                (\<exists>ms'. surface_descriptors h' d ! i = Multi ms' \<and> length ms' = length ms
                   \<and> (\<forall>j < length ms. \<exists>m'. ms' ! j = Some m'
                          \<and> copied_or_defaulted (ms ! j) m'
                          \<and> ((\<forall>m. ms ! j = Some m \<longrightarrow> source_ranges_ok m) \<longrightarrow> ranges_ok m'))))"
  proof (intro allI impI conjI)
    fix i assume i: "i < length (surface_descriptors h c)"
      and s: "surface_descriptors h c ! i = NoMaterial"
    show "surface_descriptors h' d ! i = Single default_material"
      using i s by (simp add: D sanitized_slot_def)
  next
    fix i m assume i: "i < length (surface_descriptors h c)"
      and s: "surface_descriptors h c ! i = Single m"
    have "surface_descriptors h' d ! i = Single (replaceMat (Some m))"
      using i s by (simp add: D sanitized_slot_def)
    moreover have "copied_or_defaulted (Some m) (replaceMat (Some m))"
      by (rule copied_or_defaulted_replaceMat)
    moreover have "source_ranges_ok m \<longrightarrow> ranges_ok (replaceMat (Some m))"
      by (simp add: ranges_ok_replaceMat_Some)
    ultimately show "\<exists>m'. surface_descriptors h' d ! i = Single m'
                   \<and> copied_or_defaulted (Some m) m'
                   \<and> (source_ranges_ok m \<longrightarrow> ranges_ok m')"
      by blast
  next
    fix i ms assume i: "i < length (surface_descriptors h c)"
      and s: "surface_descriptors h c ! i = Multi ms"
    have E: "surface_descriptors h' d ! i = Multi (map (\<lambda>e. Some (replaceMat e)) ms)"
      using i s by (simp add: D sanitized_slot_def)
    have "\<forall>j < length ms. \<exists>m'. map (\<lambda>e. Some (replaceMat e)) ms ! j = Some m'
                          \<and> copied_or_defaulted (ms ! j) m'
                          \<and> ((\<forall>m. ms ! j = Some m \<longrightarrow> source_ranges_ok m) \<longrightarrow> ranges_ok m')"
    proof (intro allI impI)
      fix j assume j: "j < length ms"
      have "map (\<lambda>e. Some (replaceMat e)) ms ! j = Some (replaceMat (ms ! j))"
        using j by simp
      moreover have "copied_or_defaulted (ms ! j) (replaceMat (ms ! j))"
        by (rule copied_or_defaulted_replaceMat)
      moreover have "(\<forall>m. ms ! j = Some m \<longrightarrow> source_ranges_ok m) \<longrightarrow> ranges_ok (replaceMat (ms ! j))"
        using ranges_ok_replaceMat[of "ms ! j"] by blast
      ultimately show "\<exists>m'. map (\<lambda>e. Some (replaceMat e)) ms ! j = Some m'
                          \<and> copied_or_defaulted (ms ! j) m'
                          \<and> ((\<forall>m. ms ! j = Some m \<longrightarrow> source_ranges_ok m) \<longrightarrow> ranges_ok m')"
        by blast
    qed
    with E show "\<exists>ms'. surface_descriptors h' d ! i = Multi ms' \<and> length ms' = length ms
                   \<and> (\<forall>j < length ms. \<exists>m'. ms' ! j = Some m'
                          \<and> copied_or_defaulted (ms ! j) m'
                          \<and> ((\<forall>m. ms ! j = Some m \<longrightarrow> source_ranges_ok m) \<longrightarrow> ranges_ok m'))"
      by (intro exI[of _ "map (\<lambda>e. Some (replaceMat e)) ms"]) simp
  qed
  from G L P ranges_ok_default_material show ?thesis by blast
qed

text \<open>
  C1 (amended) on a scene with one out-of-range surface and one well-formed surface, under
  the library's cloner: the well-formed surface is in range although the other is not,
  and the out-of-range roughness of the other is copied as it is.
\<close>

theorem C1_ranges_witness:
  "wf_scene mixed_scene example_heap
   \<and> \<not> source_ranges_ok out_of_range_material \<and> source_ranges_ok textured_material
   \<and> (\<exists>d h'. GLBCharacter_cloned Object3D_clone mixed_scene example_heap = (Some d, h')
        \<and> (\<exists>m'. surface_descriptors h' d ! 1 = Single m' \<and> ranges_ok m'
              \<and> roughness m' = JNum 0.25 \<and> metalness m' = JNum 0.3 \<and> opacity m' = JNum 1)
        \<and> (\<exists>m'. surface_descriptors h' d ! 0 = Single m' \<and> roughness m' = JNum 5))"
proof -
  let ?c = "fst (copy_node mixed_scene 6)"
  let ?h = "example_heap\<lparr>next_node := snd (copy_node mixed_scene 6)\<rparr>"
  have a: "Object3D_clone mixed_scene example_heap = Inr (?c, ?h)"
    by (simp add: Object3D_clone_def example_heap_def split: prod.splits)
  have wf0: "wf_scene mixed_scene example_heap"
    by (simp add: view_defs mixed_scene_def example_defs)
  have wf: "wf_scene ?c ?h"
    by (simp add: view_defs mixed_scene_def example_defs)
  have src: "surface_descriptors ?h ?c = [Single out_of_range_material, Single textured_material]"
    by (simp add: view_defs mixed_scene_def example_heap_def mesh_def)
  have bad: "\<not> source_ranges_ok out_of_range_material"
    by (simp add: source_ranges_ok_def field_ok_def out_of_range_material_def)
  have good: "source_ranges_ok textured_material"
    by (simp add: source_ranges_ok_def field_ok_def textured_material_def)
  have col: "cloneable_color (color textured_material)"
    "cloneable_color (color out_of_range_material)"
    by (simp_all add: textured_material_def out_of_range_material_def)
  from C1_ranges_copied_not_clamped[of Object3D_clone mixed_scene example_heap ?c ?h, OF a wf]
  obtain d h' where G: "GLBCharacter_cloned Object3D_clone mixed_scene example_heap = (Some d, h')"
    and at0: "\<forall>i < length (surface_descriptors ?h ?c).
          (surface_descriptors ?h ?c ! i = NoMaterial \<longrightarrow>
             surface_descriptors h' d ! i = Single default_material)
          \<and> (\<forall>m. surface_descriptors ?h ?c ! i = Single m \<longrightarrow>
                (\<exists>m'. surface_descriptors h' d ! i = Single m'
                   \<and> copied_or_defaulted (Some m) m'
                   \<and> (source_ranges_ok m \<longrightarrow> ranges_ok m')))
          \<and> (\<forall>ms. surface_descriptors ?h ?c ! i = Multi ms \<longrightarrow>
                (\<exists>ms'. surface_descriptors h' d ! i = Multi ms' \<and> length ms' = length ms
                   \<and> (\<forall>j < length ms. \<exists>m'. ms' ! j = Some m'
                          \<and> copied_or_defaulted (ms ! j) m'
                          \<and> ((\<forall>m. ms ! j = Some m \<longrightarrow> source_ranges_ok m) \<longrightarrow> ranges_ok m'))))"
    by blast
  note at = at0[unfolded src, rule_format]
  have "\<exists>m'. surface_descriptors h' d ! 1 = Single m'
         \<and> copied_or_defaulted (Some textured_material) m'
         \<and> (source_ranges_ok textured_material \<longrightarrow> ranges_ok m')"
    using at[of 1, THEN conjunct2, THEN conjunct1, rule_format, of textured_material] by simp
  then obtain m1 where m1: "surface_descriptors h' d ! 1 = Single m1"
    "copied_or_defaulted (Some textured_material) m1" "ranges_ok m1"
    using good by blast
  have f1: "roughness m1 = JNum 0.25 \<and> metalness m1 = JNum 0.3 \<and> opacity m1 = JNum 1"
    using m1(2) col(1) by (simp add: copied_or_defaulted_def textured_material_def)
  have "\<exists>m'. surface_descriptors h' d ! 0 = Single m'
         \<and> copied_or_defaulted (Some out_of_range_material) m'
         \<and> (source_ranges_ok out_of_range_material \<longrightarrow> ranges_ok m')"
    using at[of 0, THEN conjunct2, THEN conjunct1, rule_format, of out_of_range_material] by simp
  then obtain m0 where m0: "surface_descriptors h' d ! 0 = Single m0"
    "copied_or_defaulted (Some out_of_range_material) m0"
    by blast
  have f0: "roughness m0 = JNum 5"
    using m0(2) col(2) by (simp add: copied_or_defaulted_def out_of_range_material_def)
  from wf0 bad good G m1(1,3) f1 m0(1) f0 show ?thesis by blast
qed

text \<open>
  C1 as stated fails: a source material with roughness \<open>5\<close> and the string
  \<^verbatim>\<open>"opaque"\<close> as opacity keeps both values through clone and sanitize.
\<close>

theorem C1_out_of_range_counterexample:
  "fst (GLBCharacter_cloned Object3D_clone out_of_range_scene example_heap) \<noteq> None
   \<and> map (map_mslot roughness)
       (surface_descriptors
          (snd (GLBCharacter_cloned Object3D_clone out_of_range_scene example_heap))
          (the (fst (GLBCharacter_cloned Object3D_clone out_of_range_scene example_heap))))
     = [Single (JNum 5)]
   \<and> \<not> in_unit_range (JNum 5)
   \<and> map (map_mslot opacity)
       (surface_descriptors
          (snd (GLBCharacter_cloned Object3D_clone out_of_range_scene example_heap))
          (the (fst (GLBCharacter_cloned Object3D_clone out_of_range_scene example_heap))))
     = [Single (JStr ''opaque'')]
   \<and> \<not> in_unit_range (JStr ''opaque'')"
  by (simp add: GLBCharacter_cloned_def Object3D_clone_def sanitize_defs view_defs example_defs)

text \<open>
  C10. The sanitized graph and the given graph are the same once the material slots of
  the mesh nodes are emptied: names, geometries, transforms, the hierarchy, the number of
  nodes and every non-mesh node (its material slot included) are unchanged. No material
  object that existed before is changed either: the store is only extended.
\<close>

theorem C10_only_surface_materials_change:
  "strip_surface_materials (fst (sanitizeMaterials c h)) = strip_surface_materials c
   \<and> heap_le h (snd (sanitizeMaterials c h))"
  using traverse_sanitize_frame(1)[OF refl, of c h "fst (sanitizeMaterials c h)" "snd (sanitizeMaterials c h)"]
  by (simp add: sanitizeMaterials_def)

text \<open>C10 on the example scene: the stripped result, and two old materials read back.\<close>

theorem C10_frame_witness:
  "strip_surface_materials (fst (sanitizeMaterials example_scene example_heap))
     = non_mesh ''root'' NoMaterial
         [mesh ''body'' NoMaterial [mesh ''visor'' NoMaterial []],
          mesh ''cape'' NoMaterial [],
          mesh ''bare'' NoMaterial [],
          non_mesh ''outline'' (Single 2) []]
   \<and> cells (snd (sanitizeMaterials example_scene example_heap)) 1 = string_color_material
   \<and> cells (snd (sanitizeMaterials example_scene example_heap)) 2 = textured_material"
proof -
  have "(1::nat) < next_addr example_heap" "(2::nat) < next_addr example_heap"
    by (simp_all add: example_heap_def)
  moreover have "cells example_heap 1 = string_color_material"
    "cells example_heap 2 = textured_material"
    by (simp_all add: example_heap_def)
  moreover have "strip_surface_materials example_scene
     = non_mesh ''root'' NoMaterial
         [mesh ''body'' NoMaterial [mesh ''visor'' NoMaterial []],
          mesh ''cape'' NoMaterial [],
          mesh ''bare'' NoMaterial [],
          non_mesh ''outline'' (Single 2) []]"
    by (simp add: example_scene_def mesh_def non_mesh_def)
  ultimately show ?thesis
    using C10_only_surface_materials_change[of example_scene example_heap]
    by (simp add: heap_le_def)
qed

lemma replaceMat_failed: "replaceMat_try mat = Inl e \<Longrightarrow> replaceMat mat = replaceMat_catch"
  by (simp add: replaceMat_def)

lemma replaceMat_catch_fields:
  "replaceMat_catch =
     \<lparr>color = JColor 0x888888, map_tex = JNull, normalMap = JNull, roughness = JNum 0.5,
      metalness = JNum 0.3, side = DoubleSide, transparent = JBool False, opacity = JNum 1\<rparr>"
  by (simp add: replaceMat_catch_def MeshStandardMaterial_def)

lemma default_material_fields:
  "default_material =
     \<lparr>color = JColor 0x888888, map_tex = JNull, normalMap = JNull, roughness = JNum 1,
      metalness = JNum 0, side = DoubleSide, transparent = JBool False, opacity = JNum 1\<rparr>"
  by (simp add: default_material_def MeshStandardMaterial_def)

lemma replaceMat_textures:
  assumes "cloneable_color (color m)"
  shows "map_tex (replaceMat (Some m)) = (if truthy (map_tex m) then map_tex m else JNull)"
    and "normalMap (replaceMat (Some m)) = (if truthy (normalMap m) then normalMap m else JNull)"
  using assms
  by (cases "color m"; simp add: replaceMat_def replaceMat_try_def js_or_def MeshStandardMaterial_def)+

text \<open>
  C5. \<open>sanitizeMaterials\<close> returns a graph (no exception leaves it); each surface of
  the result holds what \<open>sanitize_callback\<close> makes of that surface alone, whatever
  happened at the others. A surface whose material makes the \<^verbatim>\<open>try\<close> block of
  \<open>replaceMat\<close> throw holds the neutral material of the \<^verbatim>\<open>catch\<close> block (gray,
  roughness 0.5, metalness 0.3, opaque, no textures), and so does such an element of a
  material array.
\<close>

theorem C5_surface_failure_is_local:
  assumes "wf_scene c h"
  shows "\<exists>c' h'. sanitizeMaterials c h = (c', h')
    \<and> length (surface_descriptors h' c') = length (surface_descriptors h c)
    \<and> (\<forall>i < length (surface_descriptors h c).
          surface_descriptors h' c' ! i = sanitized_slot (surface_descriptors h c ! i)
          \<and> (\<forall>m e. surface_descriptors h c ! i = Single m \<longrightarrow> replaceMat_try (Some m) = Inl e \<longrightarrow>
                surface_descriptors h' c' ! i = Single replaceMat_catch)
          \<and> (\<forall>ms j e. surface_descriptors h c ! i = Multi ms \<longrightarrow> j < length ms \<longrightarrow>
                replaceMat_try (ms ! j) = Inl e \<longrightarrow>
                (\<exists>ms'. surface_descriptors h' c' ! i = Multi ms' \<and> length ms' = length ms
                       \<and> ms' ! j = Some replaceMat_catch)))
    \<and> replaceMat_catch =
        \<lparr>color = JColor 0x888888, map_tex = JNull, normalMap = JNull, roughness = JNum 0.5,
         metalness = JNum 0.3, side = DoubleSide, transparent = JBool False, opacity = JNum 1\<rparr>"
proof -
  obtain c' h' where S: "sanitizeMaterials c h = (c', h')"
    by (cases "sanitizeMaterials c h")
  have D: "surface_descriptors h' c' = map sanitized_slot (surface_descriptors h c)"
    using sanitizeMaterials_spec(3)[OF assms S] .
  have L: "length (surface_descriptors h' c') = length (surface_descriptors h c)"
    by (simp add: D)
  have P: "\<forall>i < length (surface_descriptors h c).
          surface_descriptors h' c' ! i = sanitized_slot (surface_descriptors h c ! i)
          \<and> (\<forall>m e. surface_descriptors h c ! i = Single m \<longrightarrow> replaceMat_try (Some m) = Inl e \<longrightarrow>
                surface_descriptors h' c' ! i = Single replaceMat_catch)
          \<and> (\<forall>ms j e. surface_descriptors h c ! i = Multi ms \<longrightarrow> j < length ms \<longrightarrow>
                replaceMat_try (ms ! j) = Inl e \<longrightarrow>
                (\<exists>ms'. surface_descriptors h' c' ! i = Multi ms' \<and> length ms' = length ms
                       \<and> ms' ! j = Some replaceMat_catch))"
  proof (intro allI impI)
    fix i assume i: "i < length (surface_descriptors h c)"
    have E: "surface_descriptors h' c' ! i = sanitized_slot (surface_descriptors h c ! i)"
      using i by (simp add: D)
    show "surface_descriptors h' c' ! i = sanitized_slot (surface_descriptors h c ! i)
          \<and> (\<forall>m e. surface_descriptors h c ! i = Single m \<longrightarrow> replaceMat_try (Some m) = Inl e \<longrightarrow>
                surface_descriptors h' c' ! i = Single replaceMat_catch)
          \<and> (\<forall>ms j e. surface_descriptors h c ! i = Multi ms \<longrightarrow> j < length ms \<longrightarrow>
                replaceMat_try (ms ! j) = Inl e \<longrightarrow>
                (\<exists>ms'. surface_descriptors h' c' ! i = Multi ms' \<and> length ms' = length ms
                       \<and> ms' ! j = Some replaceMat_catch))"
      unfolding E by (auto simp: sanitized_slot_def replaceMat_failed)
  qed
  from S L P replaceMat_catch_fields show ?thesis by blast
qed

text \<open>
  C5 on the example scene: the material of the second surface throws, that surface gets
  the neutral material, and the surfaces before and after it are rewritten as usual.
\<close>

theorem C5_failure_witness:
  "wf_scene example_scene example_heap
   \<and> replaceMat_try (Some string_color_material) = Inl TypeError
   \<and> length (surface_descriptors (snd (sanitizeMaterials example_scene example_heap))
        (fst (sanitizeMaterials example_scene example_heap))) = 4
   \<and> surface_descriptors (snd (sanitizeMaterials example_scene example_heap))
        (fst (sanitizeMaterials example_scene example_heap)) ! 1 = Single replaceMat_catch
   \<and> surface_descriptors (snd (sanitizeMaterials example_scene example_heap))
        (fst (sanitizeMaterials example_scene example_heap)) ! 0
       = Single (replaceMat (Some textured_material))
   \<and> surface_descriptors (snd (sanitizeMaterials example_scene example_heap))
        (fst (sanitizeMaterials example_scene example_heap)) ! 2
       = Multi [Some (replaceMat (Some textured_material)), Some (replaceMat None)]"
proof -
  have src: "surface_descriptors example_heap example_scene
      = [Single textured_material, Single string_color_material,
         Multi [Some textured_material, None], NoMaterial]"
    by (simp add: view_defs example_scene_def example_heap_def mesh_def non_mesh_def)
  have fail: "replaceMat_try (Some string_color_material) = Inl TypeError"
    by (simp add: replaceMat_try_def string_color_material_def)
  from C5_surface_failure_is_local[OF wf_example_scene]
  obtain c' h' where S: "sanitizeMaterials example_scene example_heap = (c', h')"
    and len0: "length (surface_descriptors h' c')
        = length (surface_descriptors example_heap example_scene)"
    and at0: "\<forall>i < length (surface_descriptors example_heap example_scene).
          surface_descriptors h' c' ! i
            = sanitized_slot (surface_descriptors example_heap example_scene ! i)
          \<and> (\<forall>m e. surface_descriptors example_heap example_scene ! i = Single m \<longrightarrow>
                replaceMat_try (Some m) = Inl e \<longrightarrow>
                surface_descriptors h' c' ! i = Single replaceMat_catch)
          \<and> (\<forall>ms j e. surface_descriptors example_heap example_scene ! i = Multi ms \<longrightarrow>
                j < length ms \<longrightarrow> replaceMat_try (ms ! j) = Inl e \<longrightarrow>
                (\<exists>ms'. surface_descriptors h' c' ! i = Multi ms' \<and> length ms' = length ms
                       \<and> ms' ! j = Some replaceMat_catch))"
    by blast
  have c': "fst (sanitizeMaterials example_scene example_heap) = c'"
    and h': "snd (sanitizeMaterials example_scene example_heap) = h'"
    by (simp_all add: S)
  note at = at0[rule_format]
  have len: "length (surface_descriptors h' c') = 4"
    using len0 by (simp add: src)
  have s0: "surface_descriptors h' c' ! 0 = Single (replaceMat (Some textured_material))"
    using at[of 0, THEN conjunct1] by (simp add: src sanitized_slot_def)
  have s1: "surface_descriptors h' c' ! 1 = Single replaceMat_catch"
    using at[of 1, THEN conjunct2, THEN conjunct1, rule_format, of string_color_material TypeError]
      fail
    by (simp add: src)
  have s2: "surface_descriptors h' c' ! 2
       = Multi [Some (replaceMat (Some textured_material)), Some (replaceMat None)]"
    using at[of 2, THEN conjunct1] by (simp add: src sanitized_slot_def)
  from wf_example_scene fail len s0 s1 s2 show ?thesis unfolding c' h' by simp
qed

text \<open>
  C9 (amended). For a surface whose source material has a colour that is absent or a
  \<^verbatim>\<open>THREE.Color\<close>, the rewritten material holds in \<^verbatim>\<open>map\<close> and \<^verbatim>\<open>normalMap\<close> the very
  texture objects of the source material (the same addresses), for a single material and
  for each element of a material array. Two instances sanitized from the same graph hold
  equal descriptors, hence the same texture objects, and the materials of the cached
  asset are left as they were.
\<close>

theorem C9_textures_shared_by_reference:
  assumes "wf_scene c h" and "sanitizeMaterials c h = (c1, h1)"
    and "sanitizeMaterials c h1 = (c2, h2)"
  shows "(\<forall>i < length (surface_descriptors h c).
            (\<forall>m. surface_descriptors h c ! i = Single m \<longrightarrow> cloneable_color (color m) \<longrightarrow>
               (\<exists>m'. surface_descriptors h1 c1 ! i = Single m'
                  \<and> (truthy (map_tex m) \<longrightarrow> map_tex m' = map_tex m)
                  \<and> (truthy (normalMap m) \<longrightarrow> normalMap m' = normalMap m)))
          \<and> (\<forall>ms j m. surface_descriptors h c ! i = Multi ms \<longrightarrow> j < length ms \<longrightarrow>
                ms ! j = Some m \<longrightarrow> cloneable_color (color m) \<longrightarrow>
               (\<exists>ms' m'. surface_descriptors h1 c1 ! i = Multi ms' \<and> length ms' = length ms
                  \<and> ms' ! j = Some m'
                  \<and> (truthy (map_tex m) \<longrightarrow> map_tex m' = map_tex m)
                  \<and> (truthy (normalMap m) \<longrightarrow> normalMap m' = normalMap m))))
    \<and> surface_descriptors h2 c1 = surface_descriptors h1 c1
    \<and> surface_descriptors h2 c2 = surface_descriptors h2 c1
    \<and> (\<forall>a < next_addr h. cells h2 a = cells h a)"
proof -
  have D1: "surface_descriptors h1 c1 = map sanitized_slot (surface_descriptors h c)"
    using sanitizeMaterials_spec(3)[OF assms(1,2)] .
  have le1: "heap_le h h1" using sanitizeMaterials_spec(1)[OF assms(1,2)] .
  have wf1: "wf_scene c h1" using assms(1) le1 by (rule wf_scene_heap_le)
  have D2: "surface_descriptors h2 c2 = map sanitized_slot (surface_descriptors h1 c)"
    using sanitizeMaterials_spec(3)[OF wf1 assms(3)] .
  have le2: "heap_le h1 h2" using sanitizeMaterials_spec(1)[OF wf1 assms(3)] .
  have "\<forall>a \<in> surface_materials c. a < next_addr h"
    using assms(1) surface_subset_scene[of c] by (auto simp: wf_scene_def)
  with le1 have same: "surface_descriptors h1 c = surface_descriptors h c"
    by (rule surface_descriptors_heap_le)
  have "\<forall>a \<in> surface_materials c1. a < next_addr h1"
    using sanitizeMaterials_spec(2)[OF assms(1,2)] by auto
  with le2 have keep: "surface_descriptors h2 c1 = surface_descriptors h1 c1"
    by (rule surface_descriptors_heap_le)
  have both: "surface_descriptors h2 c2 = surface_descriptors h2 c1"
    by (simp add: keep D1 D2 same)
  have old: "\<forall>a < next_addr h. cells h2 a = cells h a"
    using heap_le_trans[OF le1 le2] by (simp add: heap_le_def)
  have tex: "\<forall>i < length (surface_descriptors h c).
            (\<forall>m. surface_descriptors h c ! i = Single m \<longrightarrow> cloneable_color (color m) \<longrightarrow>
               (\<exists>m'. surface_descriptors h1 c1 ! i = Single m'
                  \<and> (truthy (map_tex m) \<longrightarrow> map_tex m' = map_tex m)
                  \<and> (truthy (normalMap m) \<longrightarrow> normalMap m' = normalMap m)))
          \<and> (\<forall>ms j m. surface_descriptors h c ! i = Multi ms \<longrightarrow> j < length ms \<longrightarrow>
                ms ! j = Some m \<longrightarrow> cloneable_color (color m) \<longrightarrow>
               (\<exists>ms' m'. surface_descriptors h1 c1 ! i = Multi ms' \<and> length ms' = length ms
                  \<and> ms' ! j = Some m'
                  \<and> (truthy (map_tex m) \<longrightarrow> map_tex m' = map_tex m)
                  \<and> (truthy (normalMap m) \<longrightarrow> normalMap m' = normalMap m)))"
  proof (intro allI impI conjI)
    fix i m
    assume i: "i < length (surface_descriptors h c)"
      and s: "surface_descriptors h c ! i = Single m" and col: "cloneable_color (color m)"
    have "surface_descriptors h1 c1 ! i = Single (replaceMat (Some m))"
      using i s by (simp add: D1 sanitized_slot_def)
    then show "\<exists>m'. surface_descriptors h1 c1 ! i = Single m'
                  \<and> (truthy (map_tex m) \<longrightarrow> map_tex m' = map_tex m)
                  \<and> (truthy (normalMap m) \<longrightarrow> normalMap m' = normalMap m)"
      using replaceMat_textures[OF col] by simp
  next
    fix i ms j m
    assume i: "i < length (surface_descriptors h c)"
      and s: "surface_descriptors h c ! i = Multi ms" and j: "j < length ms"
      and e: "ms ! j = Some m" and col: "cloneable_color (color m)"
    have "surface_descriptors h1 c1 ! i = Multi (map (\<lambda>e. Some (replaceMat e)) ms)"
      using i s by (simp add: D1 sanitized_slot_def)
    moreover have "map (\<lambda>e. Some (replaceMat e)) ms ! j = Some (replaceMat (Some m))"
      using j e by simp
    ultimately show "\<exists>ms' m'. surface_descriptors h1 c1 ! i = Multi ms' \<and> length ms' = length ms
                  \<and> ms' ! j = Some m'
                  \<and> (truthy (map_tex m) \<longrightarrow> map_tex m' = map_tex m)
                  \<and> (truthy (normalMap m) \<longrightarrow> normalMap m' = normalMap m)"
      using replaceMat_textures[OF col] by simp
  qed
  from tex keep both old show ?thesis by blast
qed

text \<open>C9 (amended) on the example scene, at its first surface.\<close>

theorem C9_textures_witness:
  "surface_descriptors example_heap example_scene ! 0 = Single textured_material
   \<and> cloneable_color (color textured_material)
   \<and> map_tex textured_material = JObj 7 \<and> normalMap textured_material = JObj 8
   \<and> (\<exists>m'. surface_descriptors (snd (sanitizeMaterials example_scene example_heap))
              (fst (sanitizeMaterials example_scene example_heap)) ! 0 = Single m'
          \<and> map_tex m' = JObj 7 \<and> normalMap m' = JObj 8)
   \<and> surface_descriptors
        (snd (sanitizeMaterials example_scene (snd (sanitizeMaterials example_scene example_heap))))
        (fst (sanitizeMaterials example_scene (snd (sanitizeMaterials example_scene example_heap))))
     = surface_descriptors
        (snd (sanitizeMaterials example_scene (snd (sanitizeMaterials example_scene example_heap))))
        (fst (sanitizeMaterials example_scene example_heap))"
proof -
  have S1: "sanitizeMaterials example_scene example_heap
      = (fst (sanitizeMaterials example_scene example_heap),
         snd (sanitizeMaterials example_scene example_heap))"
    by simp
  have S2: "sanitizeMaterials example_scene (snd (sanitizeMaterials example_scene example_heap))
      = (fst (sanitizeMaterials example_scene (snd (sanitizeMaterials example_scene example_heap))),
         snd (sanitizeMaterials example_scene (snd (sanitizeMaterials example_scene example_heap))))"
    by simp
  have src: "surface_descriptors example_heap example_scene
      = [Single textured_material, Single string_color_material,
         Multi [Some textured_material, None], NoMaterial]"
    by (simp add: view_defs example_scene_def example_heap_def mesh_def non_mesh_def)
  have col: "cloneable_color (color textured_material)"
    and tx: "map_tex textured_material = JObj 7" "normalMap textured_material = JObj 8"
    by (simp_all add: textured_material_def)
  note T = C9_textures_shared_by_reference[OF wf_example_scene S1 S2]
  have s0: "\<exists>m'. surface_descriptors (snd (sanitizeMaterials example_scene example_heap))
              (fst (sanitizeMaterials example_scene example_heap)) ! 0 = Single m'
          \<and> map_tex m' = JObj 7 \<and> normalMap m' = JObj 8"
    using T[THEN conjunct1, rule_format, of 0, THEN conjunct1, rule_format, of textured_material]
      col tx
    by (simp add: src)
  from T have both: "surface_descriptors
        (snd (sanitizeMaterials example_scene (snd (sanitizeMaterials example_scene example_heap))))
        (fst (sanitizeMaterials example_scene (snd (sanitizeMaterials example_scene example_heap))))
     = surface_descriptors
        (snd (sanitizeMaterials example_scene (snd (sanitizeMaterials example_scene example_heap))))
        (fst (sanitizeMaterials example_scene example_heap))"
    by blast
  from s0 both col tx show ?thesis by (simp add: src)
qed

text \<open>
  C9 as stated fails: a source material that carries a base texture and whose colour is
  the string \<^verbatim>\<open>"red"\<close> is replaced by the material of the \<^verbatim>\<open>catch\<close> block, whose
  \<^verbatim>\<open>map\<close> is \<^verbatim>\<open>null\<close>.
\<close>

theorem C9_dropped_texture_counterexample:
  "truthy (map_tex string_color_material)
   \<and> surface_descriptors example_heap (mesh ''visor'' (Single 1) [])
       = [Single string_color_material]
   \<and> map (map_mslot map_tex)
       (surface_descriptors
          (snd (sanitizeMaterials (mesh ''visor'' (Single 1) []) example_heap))
          (fst (sanitizeMaterials (mesh ''visor'' (Single 1) []) example_heap)))
     = [Single JNull]"
  by (simp add: sanitize_defs view_defs example_defs)

text \<open>
  \<open>sanitizeMaterials\<close> rewrites a material array element by element and gives a mesh
  without material the default material.
\<close>

lemma sanitizeMaterials_keeps_arrays:
  assumes "wf_scene c h" and "sanitizeMaterials c h = (c', h')"
    and "i < length (surface_descriptors h c)" and "surface_descriptors h c ! i = Multi ms"
  shows "surface_descriptors h' c' ! i = Multi (map (\<lambda>e. Some (replaceMat e)) ms)"
  using sanitizeMaterials_spec(3)[OF assms(1,2)] assms(3,4) by (simp add: sanitized_slot_def)

lemma sanitizeMaterials_fills_empty_slot:
  assumes "wf_scene c h" and "sanitizeMaterials c h = (c', h')"
    and "i < length (surface_descriptors h c)" and "surface_descriptors h c ! i = NoMaterial"
  shows "surface_descriptors h' c' ! i = Single default_material"
  using sanitizeMaterials_spec(3)[OF assms(1,2)] assms(3,4) by (simp add: sanitized_slot_def)

text \<open>
  C2. The inline traversal of the auto-centering variants replaces a material array of
  two elements by one material built from the properties the array itself has under the
  names read: no colour, roughness, metalness or normal map (so the defaults), and under
  \<^verbatim>\<open>map\<close> the method \<^verbatim>\<open>Array.prototype.map\<close>, which becomes the new material's
  \<^verbatim>\<open>map\<close>. \<open>sanitizeMaterials\<close> keeps the array (lemma \<open>sanitizeMaterials_keeps_arrays\<close>).
\<close>

theorem C2_inline_array_collapsed:
  "surface_slots (fst (inline_traverse (mesh ''cape'' (Multi [Some 2, None]) []) example_heap))
     = [Single 3]
   \<and> surface_descriptors
       (snd (inline_traverse (mesh ''cape'' (Multi [Some 2, None]) []) example_heap))
       (fst (inline_traverse (mesh ''cape'' (Multi [Some 2, None]) []) example_heap))
     = [Single \<lparr>color = JColor 0x888888, map_tex = Array_prototype_map, normalMap = JNull,
                roughness = JNum 0.5, metalness = JNum 0.3, side = DoubleSide,
                transparent = JBool False, opacity = JNum 1\<rparr>]"
  by (simp add: inline_traverse_def inline_callback_def oldMat_field_def oldMat_map_def
      Array_prototype_map_def alloc_def MeshStandardMaterial_def js_or_def js_nullish_or_def
      view_defs example_defs)

text \<open>
  C6. The inline traversal of the auto-centering variants leaves a mesh without material
  as it is, whereas \<open>sanitizeMaterials\<close> gives it the default material (lemma
  \<open>sanitizeMaterials_fills_empty_slot\<close>).
\<close>

theorem C6_inline_skips_bare_mesh:
  "inline_traverse (mesh n NoMaterial []) h = (mesh n NoMaterial [], h)"
  by (simp add: inline_traverse_def inline_callback_def mesh_def)

text \<open>Fresh addresses: what one instance allocates lies beyond everything older.\<close>

lemma range_mono: "A \<subseteq> {i ..< j} \<Longrightarrow> i' \<le> i \<Longrightarrow> j \<le> j' \<Longrightarrow> A \<subseteq> {i' ..< (j'::nat)}"
proof
  fix x assume a: "A \<subseteq> {i ..< j}" "i' \<le> i" "j \<le> j'" "x \<in> A"
  then have "x \<in> {i ..< j}" by blast
  then have "i \<le> x" "x < j" by simp_all
  with a(2,3) show "x \<in> {i' ..< j'}" by simp
qed

lemma disjoint_ranges:
  assumes "A \<subseteq> {i ..< j}" and "B \<subseteq> {k ..< l}" and "j \<le> (k::nat)"
  shows "A \<inter> B = {}"
proof (rule equals0I)
  fix x assume "x \<in> A \<inter> B"
  then have "x \<in> {i ..< j}" "x \<in> {k ..< l}" using assms(1,2) by blast+
  then have "x < j" "k \<le> x" by simp_all
  with assms(3) show False by simp
qed

lemma disjoint_below:
  assumes "A \<subseteq> {i ..< j}" and "\<forall>b \<in> B. b < n" and "n \<le> (i::nat)"
  shows "A \<inter> B = {}"
proof (rule equals0I)
  fix x assume "x \<in> A \<inter> B"
  then have "x \<in> {i ..< j}" "x < n" using assms(1,2) by blast+
  then have "i \<le> x" "x < n" by simp_all
  with assms(3) show False by simp
qed

lemma inline_callback_cases:
  "inline_callback p h = (p', h') \<Longrightarrow>
     (p' = p \<and> h' = h \<and> \<not> (isMesh p \<and> material p \<noteq> NoMaterial))
     \<or> (isMesh p \<and> (\<exists>m. alloc m h = (next_addr h, h') \<and> p' = p\<lparr>material := Single (next_addr h)\<rparr>))"
  unfolding inline_callback_def
  by (simp add: alloc_def split: if_splits) blast

lemma inline_callback_fresh:
  assumes "inline_callback p h = (p', h')"
  shows "heap_le h h' \<and> isMesh p' = isMesh p
     \<and> (isMesh p' \<longrightarrow> set_mslot (material p') \<subseteq> {next_addr h ..< next_addr h'})"
  using inline_callback_cases[OF assms]
proof
  assume "p' = p \<and> h' = h \<and> \<not> (isMesh p \<and> material p \<noteq> NoMaterial)"
  then show ?thesis by (cases "material p") (auto simp: heap_le_refl)
next
  assume "isMesh p \<and> (\<exists>m. alloc m h = (next_addr h, h') \<and> p' = p\<lparr>material := Single (next_addr h)\<rparr>)"
  then obtain m where m: "isMesh p" "alloc m h = (next_addr h, h')"
    "p' = p\<lparr>material := Single (next_addr h)\<rparr>" by blast
  from alloc_result[OF m(2)] alloc_heap_le[OF m(2)] m(1,3) show ?thesis by simp
qed


lemma write_material_other: "b \<noteq> a \<Longrightarrow> cells (write_material a m h) b = cells h b"
  by (simp add: write_material_def)

lemma traverse_inline_fresh:
  "cb = inline_callback \<Longrightarrow> traverse cb c h = (c', h') \<Longrightarrow>
     heap_le h h' \<and> surface_materials c' \<subseteq> {next_addr h ..< next_addr h'}"
  and
  "cb = inline_callback \<Longrightarrow> traverse_children cb cs h = (cs', h') \<Longrightarrow>
     heap_le h h' \<and> (\<Union>c \<in> set cs'. surface_materials c) \<subseteq> {next_addr h ..< next_addr h'}"
proof (induction cb c h and cb cs h arbitrary: c' h' and cs' h'
    rule: traverse_traverse_children.induct)
  case (1 callback p cs h)
  obtain p' h1 where C: "callback p h = (p', h1)" by (cases "callback p h")
  obtain ds h2 where T: "traverse_children callback cs h1 = (ds, h2)"
    by (cases "traverse_children callback cs h1")
  from "1.prems"(2) C T have c': "c' = Object3D p' ds" and h': "h' = h2" by auto
  have C': "inline_callback p h = (p', h1)" using C "1.prems"(1) by simp
  from inline_callback_fresh[OF C'] have cb: "heap_le h h1"
    "isMesh p' \<Longrightarrow> set_mslot (material p') \<subseteq> {next_addr h ..< next_addr h1}"
    by auto
  from "1.IH"[OF C[symmetric] "1.prems"(1) T] have IH: "heap_le h1 h2"
    "(\<Union>c \<in> set ds. surface_materials c) \<subseteq> {next_addr h1 ..< next_addr h2}"
    by auto
  have n01: "next_addr h \<le> next_addr h1" and n12: "next_addr h1 \<le> next_addr h2"
    using cb(1) IH(1) by (auto simp: heap_le_def)
  have le: "heap_le h h2" using cb(1) IH(1) by (rule heap_le_trans)
  have own: "(if isMesh p' then set_mslot (material p') else {}) \<subseteq> {next_addr h ..< next_addr h2}"
  proof (cases "isMesh p'")
    case True
    from range_mono[OF cb(2)[OF True] le_refl n12] True show ?thesis by simp
  next
    case False
    then show ?thesis by simp
  qed
  have rest: "(\<Union>c \<in> set ds. surface_materials c) \<subseteq> {next_addr h ..< next_addr h2}"
    using IH(2) n01 le_refl by (rule range_mono)
  have fresh: "surface_materials (Object3D p' ds) \<subseteq> {next_addr h ..< next_addr h2}"
    unfolding surface_materials_Object3D using own rest by (rule Un_least)
  show ?case unfolding c' h' using le fresh by simp
next
  case (2 callback h)
  then show ?case by (auto simp: heap_le_refl)
next
  case (3 callback c cs h)
  obtain d h1 where T1: "traverse callback c h = (d, h1)" by (cases "traverse callback c h")
  obtain ds h2 where T2: "traverse_children callback cs h1 = (ds, h2)"
    by (cases "traverse_children callback cs h1")
  from "3.prems"(2) T1 T2 have cs': "cs' = d # ds" and h': "h' = h2" by auto
  from "3.IH"(1)[OF "3.prems"(1) T1] have I1: "heap_le h h1"
    "surface_materials d \<subseteq> {next_addr h ..< next_addr h1}" by auto
  from "3.IH"(2)[OF T1[symmetric] "3.prems"(1) T2] have I2: "heap_le h1 h2"
    "(\<Union>c \<in> set ds. surface_materials c) \<subseteq> {next_addr h1 ..< next_addr h2}" by auto
  have n01: "next_addr h \<le> next_addr h1" and n12: "next_addr h1 \<le> next_addr h2"
    using I1(1) I2(1) by (auto simp: heap_le_def)
  have le: "heap_le h h2" using I1(1) I2(1) by (rule heap_le_trans)
  have first: "surface_materials d \<subseteq> {next_addr h ..< next_addr h2}"
    using I1(2) le_refl n12 by (rule range_mono)
  have rest: "(\<Union>c \<in> set ds. surface_materials c) \<subseteq> {next_addr h ..< next_addr h2}"
    using I2(2) n01 le_refl by (rule range_mono)
  have fresh: "(\<Union>c \<in> set (d # ds). surface_materials c) \<subseteq> {next_addr h ..< next_addr h2}"
    using first rest by simp
  show ?case unfolding cs' h' using le fresh by simp
qed

text \<open>The traversals make no node and change no node's identity.\<close>

lemma node_ids_Object3D: "node_ids (Object3D p cs) = insert (uuid p) (\<Union>c \<in> set cs. node_ids c)"
  by (auto simp: node_ids_def)

lemma traverse_keeps_nodes:
  "(\<forall>p h p' h'. cb p h = (p', h') \<longrightarrow> uuid p' = uuid p \<and> next_node h' = next_node h) \<Longrightarrow>
     traverse cb c h = (c', h') \<Longrightarrow> node_ids c' = node_ids c \<and> next_node h' = next_node h"
  and
  "(\<forall>p h p' h'. cb p h = (p', h') \<longrightarrow> uuid p' = uuid p \<and> next_node h' = next_node h) \<Longrightarrow>
     traverse_children cb cs h = (cs', h') \<Longrightarrow>
     (\<Union>c \<in> set cs'. node_ids c) = (\<Union>c \<in> set cs. node_ids c) \<and> next_node h' = next_node h"
proof (induction cb c h and cb cs h arbitrary: c' h' and cs' h'
    rule: traverse_traverse_children.induct)
  case (1 callback p cs h)
  obtain p' h1 where C: "callback p h = (p', h1)" by (cases "callback p h")
  obtain ds h2 where T: "traverse_children callback cs h1 = (ds, h2)"
    by (cases "traverse_children callback cs h1")
  from "1.prems"(2) C T have c': "c' = Object3D p' ds" and h': "h' = h2" by auto
  from "1.prems"(1) C have cb: "uuid p' = uuid p" "next_node h1 = next_node h" by blast+
  from "1.IH"[OF C[symmetric] "1.prems"(1) T] have IH:
    "(\<Union>c \<in> set ds. node_ids c) = (\<Union>c \<in> set cs. node_ids c)" "next_node h2 = next_node h1"
    by auto
  show ?case unfolding c' h' using cb IH by (simp add: node_ids_Object3D)
next
  case (2 callback h)
  then show ?case by simp
next
  case (3 callback c cs h)
  obtain d h1 where T1: "traverse callback c h = (d, h1)" by (cases "traverse callback c h")
  obtain ds h2 where T2: "traverse_children callback cs h1 = (ds, h2)"
    by (cases "traverse_children callback cs h1")
  from "3.prems"(2) T1 T2 have cs': "cs' = d # ds" and h': "h' = h2" by auto
  from "3.IH"(1)[OF "3.prems"(1) T1] have I1: "node_ids d = node_ids c" "next_node h1 = next_node h"
    by auto
  from "3.IH"(2)[OF T1[symmetric] "3.prems"(1) T2] have I2:
    "(\<Union>c \<in> set ds. node_ids c) = (\<Union>c \<in> set cs. node_ids c)" "next_node h2 = next_node h1"
    by auto
  show ?case unfolding cs' h' using I1 I2 by simp
qed

lemma map_replaceMat_next_node: "map_replaceMat es h = (as, h') \<Longrightarrow> next_node h' = next_node h"
proof (induction es arbitrary: h as h')
  case Nil
  then show ?case by simp
next
  case (Cons e es)
  obtain a h1 where A: "alloc (replaceMat (map_option (cells h) e)) h = (a, h1)"
    by (cases "alloc (replaceMat (map_option (cells h) e)) h")
  obtain bs h2 where M: "map_replaceMat es h1 = (bs, h2)"
    by (cases "map_replaceMat es h1")
  from Cons.prems A M have h': "h' = h2" by auto
  have "next_node h1 = next_node h" using A by (auto simp: alloc_def)
  with Cons.IH[OF M] show ?case unfolding h' by simp
qed

lemma sanitize_callback_keeps_nodes:
  assumes "sanitize_callback p h = (p', h')"
  shows "uuid p' = uuid p \<and> next_node h' = next_node h"
proof (cases "isMesh p")
  case False
  with assms show ?thesis by (simp add: sanitize_callback_def)
next
  case True
  show ?thesis
  proof (cases "material p")
    case NoMaterial
    with True assms show ?thesis
      by (auto simp: sanitize_callback_def sanitize_try_def alloc_def)
  next
    case (Single a)
    with True assms show ?thesis
      by (auto simp: sanitize_callback_def sanitize_try_def alloc_def)
  next
    case (Multi es)
    obtain as h1 where M: "map_replaceMat es h = (as, h1)" by (cases "map_replaceMat es h")
    from True Multi M assms have p': "p' = p\<lparr>material := Multi as\<rparr>" and h': "h' = h1"
      by (auto simp: sanitize_callback_def sanitize_try_def)
    show ?thesis using map_replaceMat_next_node[OF M] unfolding p' h' by simp
  qed
qed

lemma inline_callback_keeps_nodes:
  assumes "inline_callback p h = (p', h')"
  shows "uuid p' = uuid p \<and> next_node h' = next_node h"
  using inline_callback_cases[OF assms]
proof
  assume "p' = p \<and> h' = h \<and> \<not> (isMesh p \<and> material p \<noteq> NoMaterial)"
  then show ?thesis by simp
next
  assume "isMesh p \<and> (\<exists>m. alloc m h = (next_addr h, h') \<and> p' = p\<lparr>material := Single (next_addr h)\<rparr>)"
  then obtain m where m: "alloc m h = (next_addr h, h')"
    "p' = p\<lparr>material := Single (next_addr h)\<rparr>" by blast
  from m(1) have "next_node h' = next_node h" by (auto simp: alloc_def)
  with m(2) show ?thesis by simp
qed

lemma sanitizeMaterials_keeps_nodes:
  "sanitizeMaterials c h = (c', h') \<Longrightarrow> node_ids c' = node_ids c \<and> next_node h' = next_node h"
  unfolding sanitizeMaterials_def
  by (rule traverse_keeps_nodes(1)) (auto dest: sanitize_callback_keeps_nodes)

lemma inline_traverse_keeps_nodes:
  "inline_traverse c h = (c', h') \<Longrightarrow> node_ids c' = node_ids c \<and> next_node h' = next_node h"
  unfolding inline_traverse_def
  by (rule traverse_keeps_nodes(1)) (auto dest: inline_callback_keeps_nodes)

text \<open>The library's cloner keeps its contract.\<close>

lemma copy_node_spec:
  "copy_node c n = (c', n') \<Longrightarrow>
     n < n' \<and> node_ids c' \<subseteq> {n ..< n'} \<and> map material (nodes c') = map material (nodes c)"
  and
  "copy_children cs n = (cs', n') \<Longrightarrow>
     n \<le> n' \<and> (\<Union>c \<in> set cs'. node_ids c) \<subseteq> {n ..< n'}
     \<and> concat (map (\<lambda>c. map material (nodes c)) cs') = concat (map (\<lambda>c. map material (nodes c)) cs)"
proof (induction c n and cs n arbitrary: c' n' and cs' n' rule: copy_node_copy_children.induct)
  case (1 p cs n)
  obtain ds k where K: "copy_children cs (Suc n) = (ds, k)" by (cases "copy_children cs (Suc n)")
  from "1.prems" K have c': "c' = Object3D (p\<lparr>uuid := n\<rparr>) ds" and n': "n' = k" by auto
  from "1.IH"[OF K] have IH: "Suc n \<le> k"
    "(\<Union>c \<in> set ds. node_ids c) \<subseteq> {Suc n ..< k}"
    "concat (map (\<lambda>c. map material (nodes c)) ds) = concat (map (\<lambda>c. map material (nodes c)) cs)"
    by auto
  have rest: "(\<Union>c \<in> set ds. node_ids c) \<subseteq> {n ..< k}"
    using IH(2) by (rule range_mono) simp_all
  have own: "n \<in> {n ..< k}" using IH(1) by simp
  have ids: "node_ids (Object3D (p\<lparr>uuid := n\<rparr>) ds) \<subseteq> {n ..< k}"
    using own rest by (simp add: node_ids_Object3D)
  have mats: "map material (nodes (Object3D (p\<lparr>uuid := n\<rparr>) ds)) = map material (nodes (Object3D p cs))"
    using IH(3) by (simp add: map_concat comp_def)
  show ?case unfolding c' n' using IH(1) ids mats by simp
next
  case (2 n)
  then show ?case by simp
next
  case (3 c cs n)
  obtain d k1 where K1: "copy_node c n = (d, k1)" by (cases "copy_node c n")
  obtain ds k2 where K2: "copy_children cs k1 = (ds, k2)" by (cases "copy_children cs k1")
  from "3.prems" K1 K2 have cs': "cs' = d # ds" and n': "n' = k2" by auto
  from "3.IH"(1)[OF K1] have I1: "n < k1" "node_ids d \<subseteq> {n ..< k1}"
    "map material (nodes d) = map material (nodes c)" by auto
  from "3.IH"(2)[OF K1[symmetric] K2] have I2: "k1 \<le> k2"
    "(\<Union>c \<in> set ds. node_ids c) \<subseteq> {k1 ..< k2}"
    "concat (map (\<lambda>c. map material (nodes c)) ds) = concat (map (\<lambda>c. map material (nodes c)) cs)"
    by auto
  have first: "node_ids d \<subseteq> {n ..< k2}" using I1(2) le_refl I2(1) by (rule range_mono)
  have rest: "(\<Union>c \<in> set ds. node_ids c) \<subseteq> {n ..< k2}"
    using I2(2) by (rule range_mono) (use I1(1) in simp_all)
  have "n \<le> k2" using I1(1) I2(1) by simp
  then show ?case unfolding cs' n' using first rest I1(3) I2(3) by simp
qed

lemma cloner_ok_Object3D_clone: "cloner_ok Object3D_clone"
  unfolding cloner_ok_def
proof (intro allI impI)
  fix scene h c h1
  assume wf: "wf_scene scene h" and cl: "Object3D_clone scene h = Inr (c, h1)"
  obtain c0 n where K: "copy_node scene (next_node h) = (c0, n)"
    by (cases "copy_node scene (next_node h)")
  from cl K have c: "c = c0" and h1: "h1 = h\<lparr>next_node := n\<rparr>"
    by (auto simp: Object3D_clone_def)
  from copy_node_spec(1)[OF K] have S: "next_node h < n" "node_ids c0 \<subseteq> {next_node h ..< n}"
    "map material (nodes c0) = map material (nodes scene)" by auto
  have le: "heap_le h (h\<lparr>next_node := n\<rparr>)" by (simp add: heap_le_def)
  have "scene_materials c0 = scene_materials scene" by (simp add: scene_materials_def S(3))
  with wf have wf': "wf_scene c0 (h\<lparr>next_node := n\<rparr>)" by (simp add: wf_scene_def)
  show "heap_le h h1 \<and> wf_scene c h1 \<and> next_node h \<le> next_node h1
        \<and> node_ids c \<subseteq> {next_node h ..< next_node h1}"
    unfolding c h1 using le wf' S(1,2) by simp
qed

text \<open>What one run of the \<^verbatim>\<open>useMemo\<close> body makes is new: its nodes and its surface materials.\<close>

lemma memo_fresh:
  assumes "cloner_ok clone" and "wf_scene asset h"
    and "memo = GLBCharacter_cloned \<or> memo = GLBCharacter_cloned_autoCentering"
    and "memo clone asset h = (Some d, h')"
  shows "heap_le h h' \<and> next_node h \<le> next_node h'
     \<and> node_ids d \<subseteq> {next_node h ..< next_node h'}
     \<and> (\<exists>k. next_addr h \<le> k \<and> surface_materials d \<subseteq> {k ..< next_addr h'})"
proof -
  from assms(3,4) obtain c k where cl: "clone asset h = Inr (c, k)"
    and s: "sanitizeMaterials c k = (d, h') \<or> inline_traverse c k = (d, h')"
    by (auto simp: GLBCharacter_cloned_def GLBCharacter_cloned_autoCentering_def
        split: sum.splits prod.splits)
  from assms(1,2) cl have le0: "heap_le h k" and wf: "wf_scene c k"
    and n0: "next_node h \<le> next_node k" and ids0: "node_ids c \<subseteq> {next_node h ..< next_node k}"
    unfolding cloner_ok_def by blast+
  from s have T: "heap_le k h' \<and> surface_materials d \<subseteq> {next_addr k ..< next_addr h'}
      \<and> node_ids d = node_ids c \<and> next_node h' = next_node k"
  proof
    assume S: "sanitizeMaterials c k = (d, h')"
    then show ?thesis
      using sanitizeMaterials_spec(1,2)[OF wf S] sanitizeMaterials_keeps_nodes[OF S] by simp
  next
    assume S: "inline_traverse c k = (d, h')"
    then show ?thesis
      using traverse_inline_fresh(1)[OF refl, of c k d h'] inline_traverse_keeps_nodes[OF S]
      by (simp add: inline_traverse_def)
  qed
  have a: "heap_le h h'" using le0 T by (blast intro: heap_le_trans)
  have b: "next_node h \<le> next_node h'" using n0 T by simp
  have c: "node_ids d \<subseteq> {next_node h ..< next_node h'}" using ids0 T by simp
  have "next_addr h \<le> next_addr k" using le0 by (simp add: heap_le_def)
  with T have d: "\<exists>k. next_addr h \<le> k \<and> surface_materials d \<subseteq> {k ..< next_addr h'}" by blast
  from a b c d show ?thesis by blast
qed

text \<open>
  C3 (amended). Two display instances built one after the other from the same cached
  asset (clone, then sanitize; for the safe and for the auto-centering variant, and for
  every cloner that keeps the contract above) share no node with each other or with the
  asset, and the materials of their surfaces are theirs alone: mutating a material of a
  mesh surface of one instance leaves every surface material of the other instance and
  every material of the cached asset unchanged. Materials of nodes that are not meshes
  are not part of the statement: neither traversal rewrites them.
\<close>

theorem C3_clones_share_no_node_or_surface_material:
  assumes "cloner_ok clone" and "wf_scene asset h0" and "wf_nodes asset h0"
    and "memo = GLBCharacter_cloned \<or> memo = GLBCharacter_cloned_autoCentering"
    and "memo clone asset h0 = (Some d1, h1)"
    and "memo clone asset h1 = (Some d2, h2)"
  shows "node_ids d1 \<inter> node_ids d2 = {}
    \<and> node_ids d1 \<inter> node_ids asset = {}
    \<and> node_ids d2 \<inter> node_ids asset = {}
    \<and> surface_materials d1 \<inter> surface_materials d2 = {}
    \<and> surface_materials d1 \<inter> scene_materials asset = {}
    \<and> surface_materials d2 \<inter> scene_materials asset = {}
    \<and> (\<forall>a \<in> surface_materials d1. \<forall>b \<in> surface_materials d2 \<union> scene_materials asset.
          cells (write_material a m h2) b = cells h2 b)
    \<and> (\<forall>a \<in> surface_materials d2. \<forall>b \<in> surface_materials d1 \<union> scene_materials asset.
          cells (write_material a m h2) b = cells h2 b)"
proof -
  from memo_fresh[OF assms(1,2,4,5)] obtain k1 where le1: "heap_le h0 h1"
    and nn1: "next_node h0 \<le> next_node h1"
    and i1: "node_ids d1 \<subseteq> {next_node h0 ..< next_node h1}"
    and k1: "next_addr h0 \<le> k1" and f1: "surface_materials d1 \<subseteq> {k1 ..< next_addr h1}"
    by blast
  have wfa1: "wf_scene asset h1" using assms(2) le1 by (rule wf_scene_heap_le)
  from memo_fresh[OF assms(1) wfa1 assms(4,6)] obtain k2 where
    i2: "node_ids d2 \<subseteq> {next_node h1 ..< next_node h2}"
    and k2: "next_addr h1 \<le> k2" and f2: "surface_materials d2 \<subseteq> {k2 ..< next_addr h2}"
    by blast
  have n: "next_addr h0 \<le> next_addr h1" using le1 by (simp add: heap_le_def)
  have a: "\<forall>b \<in> scene_materials asset. b < next_addr h0"
    using assms(2) by (simp add: wf_scene_def)
  have ia: "\<forall>b \<in> node_ids asset. b < next_node h0"
    using assms(3) by (simp add: wf_nodes_def)
  have n12: "node_ids d1 \<inter> node_ids d2 = {}"
    using i1 i2 le_refl by (rule disjoint_ranges)
  have n1a: "node_ids d1 \<inter> node_ids asset = {}"
    using i1 ia le_refl by (rule disjoint_below)
  have n2a: "node_ids d2 \<inter> node_ids asset = {}"
    using i2 ia nn1 by (rule disjoint_below)
  have d12: "surface_materials d1 \<inter> surface_materials d2 = {}"
    using f1 f2 k2 by (rule disjoint_ranges)
  have d1a: "surface_materials d1 \<inter> scene_materials asset = {}"
    using f1 a k1 by (rule disjoint_below)
  have "next_addr h0 \<le> k2" using n k2 by simp
  with f2 a have d2a: "surface_materials d2 \<inter> scene_materials asset = {}"
    by (rule disjoint_below)
  have w1: "\<forall>a \<in> surface_materials d1. \<forall>b \<in> surface_materials d2 \<union> scene_materials asset.
          cells (write_material a m h2) b = cells h2 b"
  proof (intro ballI)
    fix a b assume "a \<in> surface_materials d1" "b \<in> surface_materials d2 \<union> scene_materials asset"
    with d12 d1a have "b \<noteq> a" by blast
    then show "cells (write_material a m h2) b = cells h2 b" by (rule write_material_other)
  qed
  have w2: "\<forall>a \<in> surface_materials d2. \<forall>b \<in> surface_materials d1 \<union> scene_materials asset.
          cells (write_material a m h2) b = cells h2 b"
  proof (intro ballI)
    fix a b assume "a \<in> surface_materials d2" "b \<in> surface_materials d1 \<union> scene_materials asset"
    with d12 d2a have "b \<noteq> a" by blast
    then show "cells (write_material a m h2) b = cells h2 b" by (rule write_material_other)
  qed
  from n12 n1a n2a d12 d1a d2a w1 w2 show ?thesis by blast
qed

lemmas clone_defs = GLBCharacter_cloned_def Object3D_clone_def loaded_asset_def node_ids_def

text \<open>
  C3 (amended) on the example asset with the library's cloner: the asset has the nodes 0
  to 5 and the materials 1 and 2; the first instance has the nodes 6 to 11 and the
  surface materials 3 to 7, the second the nodes 12 to 17 and the surface materials 8 to
  12; writing to material 3 of the first instance leaves material 8 of the second and
  material 2 of the asset as they were.
\<close>

theorem C3_clones_witness:
  "cloner_ok Object3D_clone
   \<and> wf_scene loaded_asset example_heap \<and> wf_nodes loaded_asset example_heap
   \<and> node_ids loaded_asset = {0, 1, 2, 3, 4, 5}
   \<and> node_ids (the (fst (GLBCharacter_cloned Object3D_clone loaded_asset example_heap)))
       = {6, 7, 8, 9, 10, 11}
   \<and> node_ids (the (fst (GLBCharacter_cloned Object3D_clone loaded_asset
        (snd (GLBCharacter_cloned Object3D_clone loaded_asset example_heap)))))
       = {12, 13, 14, 15, 16, 17}
   \<and> surface_materials (the (fst (GLBCharacter_cloned Object3D_clone loaded_asset example_heap)))
       = {3, 4, 5, 6, 7}
   \<and> surface_materials (the (fst (GLBCharacter_cloned Object3D_clone loaded_asset
        (snd (GLBCharacter_cloned Object3D_clone loaded_asset example_heap)))))
       = {8, 9, 10, 11, 12}
   \<and> scene_materials loaded_asset = {1, 2}
   \<and> cells (write_material 3 out_of_range_material
        (snd (GLBCharacter_cloned Object3D_clone loaded_asset
          (snd (GLBCharacter_cloned Object3D_clone loaded_asset example_heap))))) 8
      = cells (snd (GLBCharacter_cloned Object3D_clone loaded_asset
          (snd (GLBCharacter_cloned Object3D_clone loaded_asset example_heap)))) 8
   \<and> cells (write_material 3 out_of_range_material
        (snd (GLBCharacter_cloned Object3D_clone loaded_asset
          (snd (GLBCharacter_cloned Object3D_clone loaded_asset example_heap))))) 2
      = cells (snd (GLBCharacter_cloned Object3D_clone loaded_asset
          (snd (GLBCharacter_cloned Object3D_clone loaded_asset example_heap)))) 2"
proof -
  let ?r1 = "GLBCharacter_cloned Object3D_clone loaded_asset example_heap"
  let ?d1 = "the (fst ?r1)"
  let ?h1 = "snd ?r1"
  let ?r2 = "GLBCharacter_cloned Object3D_clone loaded_asset ?h1"
  let ?d2 = "the (fst ?r2)"
  let ?h2 = "snd ?r2"
  have G1: "?r1 = (Some ?d1, ?h1)"
    by (simp add: GLBCharacter_cloned_def Object3D_clone_def split: prod.splits)
  have G2: "?r2 = (Some ?d2, ?h2)"
    by (simp add: GLBCharacter_cloned_def Object3D_clone_def split: prod.splits)
  have wfs: "wf_scene loaded_asset example_heap"
    by (simp add: loaded_asset_def view_defs example_defs)
  have ia: "node_ids loaded_asset = {0, 1, 2, 3, 4, 5}"
    by (simp add: loaded_asset_def node_ids_def example_defs; auto)
  have wfn: "wf_nodes loaded_asset example_heap"
    by (simp add: wf_nodes_def ia example_heap_def)
  have i1: "node_ids ?d1 = {6, 7, 8, 9, 10, 11}"
    by (simp add: clone_defs sanitize_defs view_defs example_defs; auto)
  have i2: "node_ids ?d2 = {12, 13, 14, 15, 16, 17}"
    by (simp add: clone_defs sanitize_defs view_defs example_defs; auto)
  have m1: "surface_materials ?d1 = {3, 4, 5, 6, 7}"
    by (simp add: clone_defs sanitize_defs view_defs example_defs; auto)
  have m2: "surface_materials ?d2 = {8, 9, 10, 11, 12}"
    by (simp add: clone_defs sanitize_defs view_defs example_defs; auto)
  have ma: "scene_materials loaded_asset = {1, 2}"
    by (simp add: loaded_asset_def view_defs example_defs; auto)
  have v: "GLBCharacter_cloned = GLBCharacter_cloned
      \<or> GLBCharacter_cloned = GLBCharacter_cloned_autoCentering"
    by simp
  note T = C3_clones_share_no_node_or_surface_material[of Object3D_clone loaded_asset example_heap
      GLBCharacter_cloned ?d1 ?h1 ?d2 ?h2 out_of_range_material,
      OF cloner_ok_Object3D_clone wfs wfn v G1 G2]
  from T have W: "\<forall>a \<in> surface_materials ?d1. \<forall>b \<in> surface_materials ?d2 \<union> scene_materials loaded_asset.
          cells (write_material a out_of_range_material ?h2) b = cells ?h2 b"
    by (elim conjE)
  have w8: "cells (write_material 3 out_of_range_material ?h2) 8 = cells ?h2 8"
    using W[rule_format, of 3 8] by (simp only: m1 m2 ma) simp
  have w2: "cells (write_material 3 out_of_range_material ?h2) 2 = cells ?h2 2"
    using W[rule_format, of 3 2] by (simp only: m1 m2 ma) simp
  from cloner_ok_Object3D_clone wfs wfn ia i1 i2 m1 m2 ma w8 w2 show ?thesis by (intro conjI)
qed

text \<open>
  C3 as stated fails: the node \<^verbatim>\<open>outline\<close> of the example asset is not a mesh, so under
  the library's cloner both instances keep the asset's material 2 on their copy of it.
  Writing to that material of the first instance changes a material of the second
  instance and of the cached asset.
\<close>

theorem C3_shared_material_counterexample:
  "2 \<in> scene_materials (the (fst (GLBCharacter_cloned Object3D_clone loaded_asset example_heap)))
   \<and> 2 \<in> scene_materials (the (fst (GLBCharacter_cloned Object3D_clone loaded_asset
        (snd (GLBCharacter_cloned Object3D_clone loaded_asset example_heap)))))
   \<and> 2 \<in> scene_materials loaded_asset
   \<and> cells (write_material 2 out_of_range_material
        (snd (GLBCharacter_cloned Object3D_clone loaded_asset
          (snd (GLBCharacter_cloned Object3D_clone loaded_asset example_heap))))) 2
      \<noteq> cells (snd (GLBCharacter_cloned Object3D_clone loaded_asset
          (snd (GLBCharacter_cloned Object3D_clone loaded_asset example_heap)))) 2"
  by (simp add: clone_defs sanitize_defs view_defs example_defs write_material_def)

text \<open>Ids that are neither in the table nor inherited get the fallback, with no load.\<close>

lemma CharacterModel3D_unmapped:
  "\<not> js_in character_id CHARACTER_GLB_MAP \<Longrightarrow>
     CharacterModel3D loader cloned_ok character_id s
       = \<lparr>result = Returned Fallback, useGLTF_args = [], onError_called = False\<rparr>"
  by (simp add: CharacterModel3D_def)

lemma WeaponModel3D_autoCentering_unmapped:
  "\<not> js_in weaponId WEAPON_GLB_MAP \<Longrightarrow>
     WeaponModel3D_autoCentering loader cloned_ok weaponId s
       = \<lparr>result = Returned Fallback, useGLTF_args = [], onError_called = False\<rparr>"
  by (simp add: WeaponModel3D_autoCentering_def)

text \<open>
  C4. The id \<^verbatim>\<open>toString\<close> is absent from both identifier tables, yet
  \<^verbatim>\<open>"toString" in table\<close> is true (the name is inherited from \<^verbatim>\<open>Object.prototype\<close>),
  so on mount the component renders the GLB subtree, and \<^verbatim>\<open>useGLTF\<close> is called with
  \<^verbatim>\<open>table["toString"]\<close>, the inherited function. This holds for the safe character
  component and for the auto-centering weapon component, whatever the loader does.
\<close>

theorem C4_inherited_name_attempts_load:
  "map_of CHARACTER_GLB_MAP ''toString'' = None
   \<and> useGLTF_args (CharacterModel3D loader cloned_ok ''toString'' initial_state)
       = [inherited_member]
   \<and> map_of WEAPON_GLB_MAP ''toString'' = None
   \<and> useGLTF_args (WeaponModel3D_autoCentering loader cloned_ok ''toString'' initial_state)
       = [inherited_member]"
proof -
  have c: "map_of CHARACTER_GLB_MAP ''toString'' = None"
    by (simp add: CHARACTER_GLB_MAP_def)
  have w: "map_of WEAPON_GLB_MAP ''toString'' = None"
    by (simp add: WEAPON_GLB_MAP_def)
  have gc: "js_get CHARACTER_GLB_MAP ''toString'' = inherited_member"
    by (simp add: js_get_def c Object_prototype_names_def)
  have gw: "js_get WEAPON_GLB_MAP ''toString'' = inherited_member"
    by (simp add: js_get_def w Object_prototype_names_def)
  have inc: "js_in ''toString'' CHARACTER_GLB_MAP" "js_in ''toString'' WEAPON_GLB_MAP"
    by (simp_all add: js_in_def Object_prototype_names_def)
  have 1: "useGLTF_args (CharacterModel3D loader cloned_ok ''toString'' initial_state)
       = [inherited_member]"
    by (cases "loader inherited_member")
      (simp_all add: CharacterModel3D_def inc gc GLBCharacter_def GLBErrorBoundary_render_def
        Suspense_def initial_state_def)
  have 2: "useGLTF_args (WeaponModel3D_autoCentering loader cloned_ok ''toString'' initial_state)
       = [inherited_member]"
    by (cases "loader inherited_member")
      (simp_all add: WeaponModel3D_autoCentering_def inc gw GLBWeapon_autoCentering_def
        GLBErrorBoundary_render_def Suspense_def initial_state_def)
  from c w 1 2 show ?thesis by simp
qed

text \<open>No event clears a flag, and a preview with a flag set shows the fallback.\<close>

lemma step_keeps_FAILED:
  "phase_of cid p = FAILED \<Longrightarrow> phase_of cid (step ok cid e p) = FAILED"
  by (cases e)
    (auto simp: phase_of_def step_def getDerivedStateFromError_def split: if_splits)

lemma run_keeps_FAILED:
  "phase_of cid p = FAILED \<Longrightarrow> phase_of cid (run ok cid es p) = FAILED"
  by (induction es arbitrary: p) (simp_all add: step_keeps_FAILED)

lemma FAILED_shows_Fallback:
  "phase_of cid p = FAILED \<Longrightarrow> shown ok cid p = Returned Fallback"
  by (auto simp: phase_of_def shown_def CharacterModel3D_def GLBErrorBoundary_render_def
      split: if_splits)

lemma step_phase:
  "phase_of cid (step ok cid e p) = phase_of cid p
     \<or> (phase_of cid p = LOADING \<and> phase_of cid (step ok cid e p) = READY)
     \<or> (phase_of cid p = LOADING \<and> phase_of cid (step ok cid e p) = FAILED)
     \<or> (phase_of cid p = READY \<and> phase_of cid (step ok cid e p) = FAILED)"
  by (cases e)
    (auto simp: phase_of_def step_def getDerivedStateFromError_def children_rendered_def
      split: if_splits)

text \<open>
  C8 (amended). An event leaves the state of the wrapper as it is or takes it from
  \<open>LOADING\<close> to \<open>READY\<close>, from \<open>LOADING\<close> to \<open>FAILED\<close>, or from \<open>READY\<close> to \<open>FAILED\<close> (an
  exception caught by the boundary while the instance is shown). \<open>FAILED\<close> is terminal:
  after any further events the state is \<open>FAILED\<close> and the component shows the fallback,
  never the display instance.
\<close>

theorem C8_transitions_and_terminal_FAILED:
  "(phase_of cid (step ok cid e p) = phase_of cid p
     \<or> (phase_of cid p = LOADING \<and> phase_of cid (step ok cid e p) = READY)
     \<or> (phase_of cid p = LOADING \<and> phase_of cid (step ok cid e p) = FAILED)
     \<or> (phase_of cid p = READY \<and> phase_of cid (step ok cid e p) = FAILED))
   \<and> (phase_of cid p = FAILED \<longrightarrow>
        phase_of cid (run ok cid es p) = FAILED
        \<and> shown ok cid (run ok cid es p) = Returned Fallback)"
  using step_phase[of cid ok e p] run_keeps_FAILED[of cid p ok es]
    FAILED_shows_Fallback[of cid "run ok cid es p" ok]
  by blast

text \<open>C8 (amended) from a preview whose boundary has caught an error, over four events.\<close>

theorem C8_terminal_witness:
  "phase_of ''ghost_riley'' \<lparr>flags = \<lparr>loadError = False, hasError = True\<rparr>, load = Pending\<rparr> = FAILED
   \<and> phase_of ''ghost_riley''
        (run True ''ghost_riley'' [Settle True, Render, SubtreeThrows, Render]
           \<lparr>flags = \<lparr>loadError = False, hasError = True\<rparr>, load = Pending\<rparr>) = FAILED
   \<and> shown True ''ghost_riley''
        (run True ''ghost_riley'' [Settle True, Render, SubtreeThrows, Render]
           \<lparr>flags = \<lparr>loadError = False, hasError = True\<rparr>, load = Pending\<rparr>) = Returned Fallback"
proof -
  have f: "phase_of ''ghost_riley'' \<lparr>flags = \<lparr>loadError = False, hasError = True\<rparr>, load = Pending\<rparr>
      = FAILED"
    by (simp add: phase_of_def)
  from f C8_transitions_and_terminal_FAILED[of "''ghost_riley''" True Render
      "\<lparr>flags = \<lparr>loadError = False, hasError = True\<rparr>, load = Pending\<rparr>"
      "[Settle True, Render, SubtreeThrows, Render]"]
  show ?thesis by blast
qed

text \<open>
  C8 as stated fails: from \<open>READY\<close>, with the display instance shown, an exception in the
  subtree makes \<^verbatim>\<open>getDerivedStateFromError\<close> set \<open>hasError\<close>, and the state is
  \<open>FAILED\<close>: a transition that is neither of the two the claim admits.
\<close>

theorem C8_ready_to_failed_counterexample:
  "phase_of ''ghost_riley'' \<lparr>flags = initial_state, load = Resolved\<rparr> = READY
   \<and> shown True ''ghost_riley'' \<lparr>flags = initial_state, load = Resolved\<rparr> = Returned DisplayInstance
   \<and> phase_of ''ghost_riley''
        (step True ''ghost_riley'' SubtreeThrows \<lparr>flags = initial_state, load = Resolved\<rparr>)
       = FAILED"
  by (simp add: phase_of_def shown_def step_def children_rendered_def getDerivedStateFromError_def
      CharacterModel3D_def GLBCharacter_def GLBErrorBoundary_render_def Suspense_def
      js_in_def js_get_def CHARACTER_GLB_MAP_def initial_state_def)






end
